theory Spec2Isabelle
  imports Complex_Main "HOL-Library.AList" "HOL-Library.Sublist" "HOL-Library.Log_Nat"
begin

section \<open>Values exchanged with the collaborators\<close>

text \<open>
  The connector of \<^verbatim>\<open>SupabaseConnector.ts\<close> talks to the identity provider
  (\<^verbatim>\<open>client.auth\<close>), the remote relational store (\<^verbatim>\<open>client.from(table)\<close>), the local
  queue of pending writes (\<^verbatim>\<open>database.getNextCrudTransaction()\<close>,
  \<^verbatim>\<open>transaction.complete()\<close>) and its registered listeners. Their behaviour is a
  parameter of the model: each call is a function of the state \<open>'s\<close> of the outside
  world, returning the answer and the next state.
\<close>

datatype jsval = JUndefined | JNull | JBool bool | JNum int | JStr string

text \<open>
  An error object, thrown or reported: the attributes the connector reads.
  \<open>code\<close> is \<open>JStr c\<close> exactly when \<^verbatim>\<open>typeof ex.code === "string"\<close>.
\<close>

record js_error =
  name :: string
  message :: string
  code :: jsval

definition new_Error :: "string \<Rightarrow> js_error" where
  "new_Error msg = \<lparr>name = ''Error'', message = msg, code = JUndefined\<rparr>"

text \<open>\<^verbatim>\<open>`${error}`\<close> for an error object or \<^verbatim>\<open>null\<close> (Error.prototype.toString).\<close>

definition error_to_string :: "js_error option \<Rightarrow> string" where
  "error_to_string e =
     (case e of
        None \<Rightarrow> ''null''
      | Some x \<Rightarrow>
          (if name x = [] then message x
           else if message x = [] then name x
           else name x @ '': '' @ message x))"

section \<open>Numbers and dates\<close>

text \<open>
  A number of the language is a double: not a number, an infinity (\<open>Infinity True\<close> is
  the positive one) or a finite value, kept as the rational it denotes; both zeros are
  \<open>Finite 0\<close>. A number counts as true in a condition unless it is zero or not a
  number.
\<close>

datatype js_number = NaN | Infinity bool | Finite rat

definition truthy :: "js_number \<Rightarrow> bool" where
  "truthy x = (case x of NaN \<Rightarrow> False | Infinity s \<Rightarrow> True | Finite q \<Rightarrow> q \<noteq> 0)"

text \<open>For a positive \<open>r\<close>, the exponent \<open>k\<close> with \<open>2\<^sup>k \<le> r < 2\<^sup>k\<^sup>+\<^sup>1\<close>.\<close>

definition floor_log2 :: "rat \<Rightarrow> int" where
  "floor_log2 r =
     (case quotient_of r of
        (a, b) \<Rightarrow> (let k = bitlen a - bitlen b in if 2 powi k \<le> r then k else k - 1))"

definition round_half_even :: "rat \<Rightarrow> int" where
  "round_half_even r =
     (let f = \<lfloor>r\<rfloor>; d = r - of_int f
      in if d < 1 / 2 then f
         else if 1 / 2 < d then f + 1
         else if even f then f else f + 1)"

text \<open>
  The double nearest to a rational: 53 significant bits, ties to the even significand,
  exponents from \<open>-1074\<close>, and an infinity from \<open>2\<^sup>1\<^sup>0\<^sup>2\<^sup>4\<close> on.
\<close>

definition to_double :: "rat \<Rightarrow> js_number" where
  "to_double q =
     (if q = 0 then Finite 0
      else
        (let e = max (floor_log2 \<bar>q\<bar> - 52) (- 1074);
             m = round_half_even (\<bar>q\<bar> / 2 powi e);
             v = of_int m * 2 powi e
         in if 2 ^ 1024 \<le> v then Infinity (0 < q) else Finite (sgn q * v)))"

text \<open>\<^verbatim>\<open>x * 1000\<close>\<close>

definition times_1000 :: "js_number \<Rightarrow> js_number" where
  "times_1000 x =
     (case x of
        NaN \<Rightarrow> NaN
      | Infinity s \<Rightarrow> Infinity s
      | Finite q \<Rightarrow> to_double (q * 1000))"

text \<open>
  \<^verbatim>\<open>new Date(v)\<close> for a number: the time value is \<open>v\<close> cut to an integer, and the date
  is invalid when \<open>v\<close> is not finite or beyond 8.64e15 milliseconds on either side.
\<close>

datatype js_date = Date int | Invalid_Date

definition new_Date :: "js_number \<Rightarrow> js_date" where
  "new_Date v =
     (case v of
        Finite q \<Rightarrow>
          (if \<bar>q\<bar> \<le> 8640000000000000 then Date (if 0 \<le> q then \<lfloor>q\<rfloor> else \<lceil>q\<rceil>)
           else Invalid_Date)
      | _ \<Rightarrow> Invalid_Date)"

section \<open>Sessions, operations and collaborators\<close>

record Session =
  access_token :: "string option"
  expires_at :: "js_number option"

record SupabaseConfig =
  supabaseUrl :: string
  supabaseAnonKey :: string
  powersyncUrl :: string

text \<open>
  The answer of \<^verbatim>\<open>getSession\<close> and \<^verbatim>\<open>signInWithPassword\<close>, as it is destructured.
  Either call may also reject.
\<close>

record auth_response =
  session :: "Session option"
  error :: "js_error option"

datatype auth_reply = AuthResolved auth_response | AuthRejected js_error

text \<open>A column-to-value object, in property order.\<close>

type_synonym payload = "(string \<times> jsval) list"

datatype UpdateType = PUT | PATCH | DELETE | Unknown string

record CrudEntry =
  table :: string
  op :: UpdateType
  entry_id :: string
  opData :: "payload option"

datatype remote_request =
    Upsert payload
  | Update "payload option" string
  | Delete string

text \<open>
  A remote call either resolves to a result whose \<^verbatim>\<open>error\<close> is an error object or
  \<^verbatim>\<open>null\<close>, or rejects with a thrown value.
\<close>

datatype remote_reply = Resolved "js_error option" | Rejected js_error

record 's SupabaseClient =
  getSession :: "'s \<Rightarrow> auth_reply \<times> 's"
  signInWithPassword :: "string \<Rightarrow> string \<Rightarrow> 's \<Rightarrow> auth_reply \<times> 's"
  from_table :: "string \<Rightarrow> remote_request \<Rightarrow> 's \<Rightarrow> remote_reply \<times> 's"

record 's CrudTransaction =
  crud :: "CrudEntry list"
  complete :: "'s \<Rightarrow> js_error option \<times> 's"

record 's AbstractPowerSyncDatabase =
  getNextCrudTransaction :: "'s \<Rightarrow> 's CrudTransaction option \<times> 's"

section \<open>Observable effects and connector state\<close>

text \<open>
  Every call on a collaborator, every write of \<^verbatim>\<open>currentSession\<close>, every notification
  of the listeners and every console line is appended to a log, in program order.

  The connector inherits its listeners and \<^verbatim>\<open>iterateListeners\<close> from a base class that
  is not among the sources. What notifying the listeners of an event does is therefore
  a field of the connector: the change of the outside world, and the exception that
  leaves the iteration, if a listener throws one and the base class lets it through.
\<close>

datatype effect =
    GetSession
  | SignInWithPassword string string
  | StoreSession "Session option"
  | Initialized
  | SessionStarted Session
  | GetNextCrudTransaction
  | RemoteCall string remote_request
  | Complete
  | LogExpiry "js_number option"
  | LogResultError js_error
  | LogCaught js_error
  | LogDiscard "CrudEntry option" js_error

record 's connector =
  ready :: bool
  currentSession :: "Session option"
  listeners_initialized :: "'s \<Rightarrow> js_error option \<times> 's"
  listeners_sessionStarted :: "Session \<Rightarrow> 's \<Rightarrow> js_error option \<times> 's"
  world :: 's
  effects :: "effect list"

definition emit :: "effect \<Rightarrow> 's connector \<Rightarrow> 's connector" where
  "emit ev st = st\<lparr>effects := effects st @ [ev]\<rparr>"

text \<open>\<^verbatim>\<open>this.iterateListeners((cb) => cb.initialized?.())\<close>\<close>

definition notify_initialized :: "'s connector \<Rightarrow> js_error option \<times> 's connector" where
  "notify_initialized st =
     (case listeners_initialized st (world st) of
        (r, w) \<Rightarrow> (r, emit Initialized (st\<lparr>world := w\<rparr>)))"

text \<open>\<^verbatim>\<open>this.iterateListeners((cb) => cb.sessionStarted?.(session))\<close>\<close>

definition notify_sessionStarted ::
  "Session \<Rightarrow> 's connector \<Rightarrow> js_error option \<times> 's connector"
  where
  "notify_sessionStarted s st =
     (case listeners_sessionStarted st s (world st) of
        (r, w) \<Rightarrow> (r, emit (SessionStarted s) (st\<lparr>world := w\<rparr>)))"

section \<open>Classification of response codes\<close>

text \<open>
  The three patterns of \<^verbatim>\<open>FATAL_RESPONSE_CODES\<close> are anchored at both ends and made of
  literal characters and \<^verbatim>\<open>.\<close>, which matches any character but a line terminator
  (of those, line feed and carriage return are characters of type \<^typ>\<open>char\<close>).
\<close>

datatype regex_atom = Lit char | Dot

fun atom_matches :: "regex_atom \<Rightarrow> char \<Rightarrow> bool" where
  "atom_matches (Lit c) x = (x = c)"
| "atom_matches Dot x = (x \<noteq> CHR 0x0A \<and> x \<noteq> CHR 0x0D)"

fun regex_test :: "regex_atom list \<Rightarrow> string \<Rightarrow> bool" where
  "regex_test [] [] = True"
| "regex_test (a # as) (x # xs) = (atom_matches a x \<and> regex_test as xs)"
| "regex_test _ _ = False"

definition FATAL_RESPONSE_CODES :: "regex_atom list list" where
  "FATAL_RESPONSE_CODES =
     [ [Lit CHR ''2'', Lit CHR ''2'', Dot, Dot, Dot],
       [Lit CHR ''2'', Lit CHR ''3'', Dot, Dot, Dot],
       [Lit CHR ''4'', Lit CHR ''2'', Lit CHR ''5'', Lit CHR ''0'', Lit CHR ''1''] ]"

text \<open>The test of the \<^verbatim>\<open>catch\<close> block.\<close>

definition is_fatal :: "js_error \<Rightarrow> bool" where
  "is_fatal ex =
     (case code ex of
        JStr c \<Rightarrow> list_ex (\<lambda>regex. regex_test regex c) FATAL_RESPONSE_CODES
      | _ \<Rightarrow> False)"

section \<open>Session handling\<close>

text \<open>
  Each method returns the exception that leaves it, if any, and the connector as the
  call left it.
\<close>

definition updateSession ::
  "Session option \<Rightarrow> 's connector \<Rightarrow> js_error option \<times> 's connector"
  where
  "updateSession s st =
     (let st1 = emit (StoreSession s) (st\<lparr>currentSession := s\<rparr>)
      in case s of
           None \<Rightarrow> (None, st1)
         | Some x \<Rightarrow> notify_sessionStarted x st1)"

definition init :: "'s SupabaseClient \<Rightarrow> 's connector \<Rightarrow> js_error option \<times> 's connector" where
  "init client st =
     (if ready st then (None, st)
      else
        (case getSession client (world st) of
           (reply, w) \<Rightarrow>
             (let st1 = emit GetSession (st\<lparr>world := w\<rparr>)
              in case reply of
                   AuthRejected ex \<Rightarrow> (Some ex, st1)
                 | AuthResolved sessionResponse \<Rightarrow>
                     (case updateSession (session sessionResponse) st1 of
                        (Some ex, st2) \<Rightarrow> (Some ex, st2)
                      | (None, st2) \<Rightarrow> notify_initialized (st2\<lparr>ready := True\<rparr>)))))"

definition login ::
  "'s SupabaseClient \<Rightarrow> string \<Rightarrow> string \<Rightarrow> 's connector \<Rightarrow> js_error option \<times> 's connector"
  where
  "login client username password st =
     (case signInWithPassword client username password (world st) of
        (reply, w) \<Rightarrow>
          (let st1 = emit (SignInWithPassword username password) (st\<lparr>world := w\<rparr>)
           in case reply of
                AuthRejected ex \<Rightarrow> (Some ex, st1)
              | AuthResolved r \<Rightarrow>
                  (case error r of
                     Some e \<Rightarrow> (Some e, st1)
                   | None \<Rightarrow> updateSession (session r) st1)))"

record credentials =
  endpoint :: string
  token :: string
  expiresAt :: "js_date option"

text \<open>\<^verbatim>\<open>session.expires_at ? new Date(session.expires_at * 1000) : undefined\<close>\<close>

definition expiry_date :: "js_number option \<Rightarrow> js_date option" where
  "expiry_date e =
     (case e of
        None \<Rightarrow> None
      | Some x \<Rightarrow> (if truthy x then Some (new_Date (times_1000 x)) else None))"

definition fetchCredentials ::
  "'s SupabaseClient \<Rightarrow> SupabaseConfig \<Rightarrow> 's connector \<Rightarrow> (js_error + credentials) \<times> 's connector"
  where
  "fetchCredentials client config st =
     (case getSession client (world st) of
        (reply, w) \<Rightarrow>
          (let st1 = emit GetSession (st\<lparr>world := w\<rparr>)
           in case reply of
                AuthRejected ex \<Rightarrow> (Inl ex, st1)
              | AuthResolved r \<Rightarrow>
                  (let failure = new_Error (''Could not fetch Supabase credentials: ''
                                             @ error_to_string (error r))
                   in case session r of
                        None \<Rightarrow> (Inl failure, st1)
                      | Some s \<Rightarrow>
                          (if error r \<noteq> None then (Inl failure, st1)
                           else
                             (Inr \<lparr>endpoint = powersyncUrl config,
                                   token = (case access_token s of None \<Rightarrow> '''' | Some t \<Rightarrow> t),
                                   expiresAt = expiry_date (expires_at s)\<rparr>,
                              emit (LogExpiry (expires_at s)) st1)))))"

section \<open>Uploading a transaction\<close>

text \<open>\<^verbatim>\<open>{ ...op.opData, id: op.id }\<close>: spreading \<^verbatim>\<open>undefined\<close> adds no property.\<close>

definition put_record :: "CrudEntry \<Rightarrow> payload" where
  "put_record e =
     AList.update ''id'' (JStr (entry_id e)) (case opData e of None \<Rightarrow> [] | Some d \<Rightarrow> d)"

text \<open>The \<^verbatim>\<open>switch\<close>: the request each kind sends, or the error of the default branch.\<close>

definition dispatch :: "CrudEntry \<Rightarrow> js_error + remote_request" where
  "dispatch e =
     (case op e of
        PUT \<Rightarrow> Inr (Upsert (put_record e))
      | PATCH \<Rightarrow> Inr (Update (opData e) (entry_id e))
      | DELETE \<Rightarrow> Inr (Delete (entry_id e))
      | Unknown k \<Rightarrow> Inl (new_Error (''Unsupported operation type: '' @ k)))"

text \<open>
  The \<^verbatim>\<open>for\<close> loop of the \<^verbatim>\<open>try\<close> block. The result is the exception that left the
  loop, if any, the last operation the loop reached (\<^verbatim>\<open>lastOp\<close>) and the state.
\<close>

fun crud_loop ::
  "'s SupabaseClient \<Rightarrow> CrudEntry list \<Rightarrow> CrudEntry option \<Rightarrow> 's connector
     \<Rightarrow> js_error option \<times> CrudEntry option \<times> 's connector"
  where
  "crud_loop client [] lastOp st = (None, lastOp, st)"
| "crud_loop client (e # es) lastOp st =
     (case dispatch e of
        Inl ex \<Rightarrow> (Some ex, Some e, st)
      | Inr req \<Rightarrow>
          (case from_table client (table e) req (world st) of
             (reply, w) \<Rightarrow>
               (let st1 = emit (RemoteCall (table e) req) (st\<lparr>world := w\<rparr>)
                in case reply of
                     Rejected ex \<Rightarrow> (Some ex, Some e, st1)
                   | Resolved None \<Rightarrow> crud_loop client es (Some e) st1
                   | Resolved (Some err) \<Rightarrow>
                       (Some (new_Error (''Could not update Supabase. Received error: '' @ message err)),
                        Some e, emit (LogResultError err) st1))))"

definition call_complete ::
  "'s CrudTransaction \<Rightarrow> 's connector \<Rightarrow> js_error option \<times> 's connector"
  where
  "call_complete tx st =
     (case complete tx (world st) of
        (r, w) \<Rightarrow> (r, emit Complete (st\<lparr>world := w\<rparr>)))"

text \<open>
  \<^verbatim>\<open>uploadData\<close>. The query of the queue is taken to resolve, with a transaction or
  with none.
\<close>

definition uploadData ::
  "'s SupabaseClient \<Rightarrow> 's AbstractPowerSyncDatabase \<Rightarrow> 's connector
     \<Rightarrow> js_error option \<times> 's connector"
  where
  "uploadData client database st =
     (case getNextCrudTransaction database (world st) of
        (next, w) \<Rightarrow>
          (let st0 = emit GetNextCrudTransaction (st\<lparr>world := w\<rparr>)
           in case next of
                None \<Rightarrow> (None, st0)
              | Some transaction \<Rightarrow>
                  (let (thrown, lastOp, st1) =
                         (case crud_loop client (crud transaction) None st0 of
                            (None, l, s) \<Rightarrow>
                              (case call_complete transaction s of (r, s') \<Rightarrow> (r, l, s'))
                          | (Some ex, l, s) \<Rightarrow> (Some ex, l, s))
                   in case thrown of
                        None \<Rightarrow> (None, st1)
                      | Some ex \<Rightarrow>
                          (let st2 = emit (LogCaught ex) st1
                           in if is_fatal ex
                              then call_complete transaction (emit (LogDiscard lastOp ex) st2)
                              else (Some ex, st2)))))"

section \<open>Reading a log\<close>

text \<open>The remote calls of a log, in the order they were issued.\<close>

fun remote_calls :: "effect list \<Rightarrow> (string \<times> remote_request) list" where
  "remote_calls [] = []"
| "remote_calls (RemoteCall t r # evs) = (t, r) # remote_calls evs"
| "remote_calls (_ # evs) = remote_calls evs"

text \<open>How often \<^verbatim>\<open>transaction.complete()\<close> was called.\<close>

definition completions :: "effect list \<Rightarrow> nat" where
  "completions evs = count_list evs Complete"

fun is_store :: "effect \<Rightarrow> bool" where
  "is_store (StoreSession s) = True"
| "is_store _ = False"

fun is_session_started :: "effect \<Rightarrow> bool" where
  "is_session_started (SessionStarted s) = True"
| "is_session_started _ = False"

definition session_stores :: "effect list \<Rightarrow> nat" where
  "session_stores evs = length (filter is_store evs)"

definition session_starts :: "effect list \<Rightarrow> nat" where
  "session_starts evs = length (filter is_session_started evs)"

text \<open>
  The remote call an operation stands for: its table and the request of its kind. An
  operation of an unknown kind stands for no call.
\<close>

definition call_of :: "CrudEntry \<Rightarrow> (string \<times> remote_request) list" where
  "call_of e = (case dispatch e of Inl ex \<Rightarrow> [] | Inr req \<Rightarrow> [(table e, req)])"

definition requests :: "CrudEntry list \<Rightarrow> (string \<times> remote_request) list" where
  "requests es = concat (map call_of es)"

definition call_events :: "(string \<times> remote_request) list \<Rightarrow> effect list" where
  "call_events cs = map (\<lambda>(t, r). RemoteCall t r) cs"

text \<open>
  The store accepts a sequence of operations from a state of the world when each of them
  has a request and the store resolves that request without an error, each call made in
  the state the call before it left; the result is the state after the last call.
\<close>

fun store_accepts :: "'s SupabaseClient \<Rightarrow> CrudEntry list \<Rightarrow> 's \<Rightarrow> 's option" where
  "store_accepts client [] w = Some w"
| "store_accepts client (e # es) w =
     (case dispatch e of
        Inl ex \<Rightarrow> None
      | Inr req \<Rightarrow>
          (case from_table client (table e) req w of
             (Resolved None, w') \<Rightarrow> store_accepts client es w'
           | (Resolved (Some err), w') \<Rightarrow> None
           | (Rejected ex, w') \<Rightarrow> None))"

section \<open>Sample collaborators\<close>

text \<open>
  A concrete outside world, for running the connector: its state counts the calls made
  on it. The store accepts upserts and updates and reports a foreign-key violation for
  every delete; it cannot be reached for the table \<open>offline\<close>, and it rejects every
  call on the table \<open>busy\<close> with a serialization failure and every call on the table
  \<open>locked\<close> with a permission error. The identity provider knows one password.
\<close>

definition fk_violation :: js_error where
  "fk_violation =
     \<lparr>name = ''PostgrestError'', message = ''violates foreign key constraint'',
      code = JStr ''23503''\<rparr>"

definition network_failure :: js_error where
  "network_failure = \<lparr>name = ''TypeError'', message = ''Failed to fetch'', code = JUndefined\<rparr>"

definition serialization_failure :: js_error where
  "serialization_failure =
     \<lparr>name = ''PostgrestError'', message = ''could not serialize access'',
      code = JStr ''40001''\<rparr>"

definition permission_denied :: js_error where
  "permission_denied =
     \<lparr>name = ''PostgrestError'', message = ''permission denied for table locked'',
      code = JStr ''42501''\<rparr>"

definition invalid_login :: js_error where
  "invalid_login =
     \<lparr>name = ''AuthApiError'', message = ''Invalid login credentials'',
      code = JStr ''invalid_credentials''\<rparr>"

definition listener_failure :: js_error where
  "listener_failure =
     \<lparr>name = ''TypeError'', message = ''router is undefined'', code = JUndefined\<rparr>"

definition queue_failure :: js_error where
  "queue_failure = \<lparr>name = ''Error'', message = ''database is closed'', code = JUndefined\<rparr>"

definition demo_session :: Session where
  "demo_session = \<lparr>access_token = Some ''jwt'', expires_at = Some (Finite 1700000000)\<rparr>"

definition signed_in :: auth_response where
  "signed_in = \<lparr>session = Some demo_session, error = None\<rparr>"

definition signed_out :: auth_response where
  "signed_out = \<lparr>session = None, error = None\<rparr>"

text \<open>A session that expires at the given number and has no access token.\<close>

definition expiring :: "js_number \<Rightarrow> auth_response" where
  "expiring x = \<lparr>session = Some \<lparr>access_token = None, expires_at = Some x\<rparr>, error = None\<rparr>"

definition demo_config :: SupabaseConfig where
  "demo_config =
     \<lparr>supabaseUrl = ''https://db.example'', supabaseAnonKey = ''anon'',
      powersyncUrl = ''https://sync.example''\<rparr>"

definition demo_client :: "auth_response \<Rightarrow> nat SupabaseClient" where
  "demo_client stored =
     \<lparr>getSession = (\<lambda>w. (AuthResolved stored, Suc w)),
      signInWithPassword = (\<lambda>u p w.
        if p = ''secret'' then (AuthResolved \<lparr>session = Some demo_session, error = None\<rparr>, Suc w)
        else if p = '''' then (AuthRejected network_failure, Suc w)
        else (AuthResolved \<lparr>session = None, error = Some invalid_login\<rparr>, Suc w)),
      from_table = (\<lambda>t r w.
        if t = ''offline'' then (Rejected network_failure, Suc w)
        else if t = ''busy'' then (Rejected serialization_failure, Suc w)
        else if t = ''locked'' then (Rejected permission_denied, Suc w)
        else (case r of
                Delete i \<Rightarrow> (Resolved (Some fk_violation), Suc w)
              | _ \<Rightarrow> (Resolved None, Suc w)))\<rparr>"

text \<open>A client whose identity provider cannot be reached.\<close>

definition unreachable_client :: "nat SupabaseClient" where
  "unreachable_client =
     (demo_client signed_out)\<lparr>getSession := (\<lambda>w. (AuthRejected network_failure, Suc w))\<rparr>"

definition demo_transaction :: "CrudEntry list \<Rightarrow> nat CrudTransaction" where
  "demo_transaction es = \<lparr>crud = es, complete = (\<lambda>w. (None, Suc w))\<rparr>"

definition demo_database :: "CrudEntry list option \<Rightarrow> nat AbstractPowerSyncDatabase" where
  "demo_database pending =
     \<lparr>getNextCrudTransaction = (\<lambda>w. (map_option demo_transaction pending, Suc w))\<rparr>"

text \<open>
  A transaction without operations whose acknowledgement fails with the given error
  until the world has seen \<open>n\<close> calls, and the queue that hands it out.
\<close>

definition stubborn_transaction :: "js_error \<Rightarrow> nat \<Rightarrow> nat CrudTransaction" where
  "stubborn_transaction ex n =
     \<lparr>crud = [], complete = (\<lambda>w. (if w < n then Some ex else None, Suc w))\<rparr>"

definition stubborn_database :: "js_error \<Rightarrow> nat \<Rightarrow> nat AbstractPowerSyncDatabase" where
  "stubborn_database ex n =
     \<lparr>getNextCrudTransaction = (\<lambda>w. (Some (stubborn_transaction ex n), Suc w))\<rparr>"

definition fresh :: "nat connector" where
  "fresh =
     \<lparr>ready = False, currentSession = None,
      listeners_initialized = (\<lambda>w. (None, Suc w)),
      listeners_sessionStarted = (\<lambda>s w. (None, Suc w)),
      world = 0, effects = []\<rparr>"

text \<open>The same connector with a listener that throws when a session starts.\<close>

definition grumpy :: "nat connector" where
  "grumpy = fresh\<lparr>listeners_sessionStarted := (\<lambda>s w. (Some listener_failure, Suc w))\<rparr>"

definition put_1 :: CrudEntry where
  "put_1 =
     \<lparr>table = ''todos'', op = PUT, entry_id = ''1'',
      opData = Some [(''description'', JStr ''buy milk'')]\<rparr>"

definition put_4 :: CrudEntry where
  "put_4 =
     \<lparr>table = ''todos'', op = PUT, entry_id = ''4'',
      opData = Some [(''id'', JStr ''99''), (''description'', JStr ''call home'')]\<rparr>"

definition patch_1 :: CrudEntry where
  "patch_1 =
     \<lparr>table = ''todos'', op = PATCH, entry_id = ''1'',
      opData = Some [(''completed'', JNum 1)]\<rparr>"

definition delete_2 :: CrudEntry where
  "delete_2 = \<lparr>table = ''todos'', op = DELETE, entry_id = ''2'', opData = None\<rparr>"

definition patch_offline :: CrudEntry where
  "patch_offline =
     \<lparr>table = ''offline'', op = PATCH, entry_id = ''7'',
      opData = Some [(''completed'', JNum 0)]\<rparr>"

definition patch_busy :: CrudEntry where
  "patch_busy =
     \<lparr>table = ''busy'', op = PATCH, entry_id = ''8'',
      opData = Some [(''completed'', JNum 1)]\<rparr>"

definition put_locked :: CrudEntry where
  "put_locked = \<lparr>table = ''locked'', op = PUT, entry_id = ''9'', opData = None\<rparr>"

definition merge_3 :: CrudEntry where
  "merge_3 = \<lparr>table = ''todos'', op = Unknown ''MERGE'', entry_id = ''3'', opData = None\<rparr>"

lemmas fixture_defs =
  fk_violation_def network_failure_def serialization_failure_def permission_denied_def
  invalid_login_def listener_failure_def queue_failure_def demo_session_def signed_in_def
  signed_out_def expiring_def demo_config_def demo_client_def unreachable_client_def
  demo_transaction_def
  demo_database_def stubborn_transaction_def stubborn_database_def fresh_def grumpy_def
  put_1_def put_4_def patch_1_def delete_2_def patch_offline_def patch_busy_def
  put_locked_def merge_3_def

lemmas run_defs =
  uploadData_def call_complete_def dispatch_def put_record_def emit_def new_Error_def
  is_fatal_def FATAL_RESPONSE_CODES_def Let_def completions_def

section \<open>Properties of numbers and dates\<close>

lemma round_half_even_of_int: "round_half_even (of_int i) = i"
  by (simp add: round_half_even_def)

lemma round_half_even_ge_floor: "\<lfloor>r\<rfloor> \<le> round_half_even r"
  by (simp add: round_half_even_def Let_def)

lemma floor_log2_of_int:
  assumes "0 < a"
  shows "floor_log2 (of_int a) = bitlen a - 1"
proof -
  have b1: "1 \<le> bitlen a" using assms by (simp add: bitlen_alt_def)
  have "2 ^ nat (bitlen a - 1) \<le> a" using bitlen_bounds[OF assms] by simp
  then have "(2::rat) ^ nat (bitlen a - 1) \<le> of_int a"
    by (metis of_int_le_iff of_int_numeral of_int_power)
  then have "(2::rat) powi (bitlen a - 1) \<le> of_int a"
    using b1 by (simp add: power_int_def)
  then show ?thesis
    by (simp add: floor_log2_def Let_def bitlen_alt_def)
qed

text \<open>A whole number below \<open>2\<^sup>5\<^sup>3\<close> is a double.\<close>

lemma to_double_of_int:
  assumes "k \<noteq> 0" and "\<bar>k\<bar> < 2 ^ 53"
  shows "to_double (of_int k) = Finite (of_int k)"
proof -
  let ?a = "\<bar>k\<bar>"
  have a: "0 < ?a" using assms(1) by simp
  have b1: "1 \<le> bitlen ?a" using a by (simp add: bitlen_alt_def)
  have b53: "bitlen ?a \<le> 53"
    using assms(2) by (simp add: bitlen_le_iff_power)
  define j where "j = nat (53 - bitlen ?a)"
  have fl: "floor_log2 \<bar>rat_of_int k\<bar> = bitlen ?a - 1"
    using floor_log2_of_int[OF a] by simp
  have e: "max (floor_log2 \<bar>rat_of_int k\<bar> - 52) (- 1074) = - int j"
    using fl b1 b53 by (simp add: j_def)
  have p: "(2::rat) powi (- int j) = 1 / 2 ^ j"
    by (simp add: power_int_def field_simps)
  have q: "\<bar>rat_of_int k\<bar> / (2 powi (- int j)) = of_int (?a * 2 ^ j)"
    by (simp add: p)
  have m: "round_half_even (\<bar>rat_of_int k\<bar> / (2 powi (- int j))) = ?a * 2 ^ j"
    unfolding q by (rule round_half_even_of_int)
  have v: "rat_of_int (?a * 2 ^ j) * 2 powi (- int j) = of_int ?a"
    by (simp add: p)
  have small: "\<not> (2::rat) ^ 1024 \<le> of_int ?a"
  proof -
    have "?a < 2 ^ 1024" using assms(2) by (rule less_trans) simp
    then have "rat_of_int ?a < 2 ^ 1024"
      by (metis of_int_less_iff of_int_numeral of_int_power)
    then show ?thesis by simp
  qed
  have s: "sgn (rat_of_int k) * of_int ?a = of_int k"
    by (simp add: sgn_if)
  have nz: "rat_of_int k \<noteq> 0" using assms(1) by simp
  show ?thesis
    unfolding to_double_def Let_def e m v
    using nz small s by simp
qed

lemma times_1000_whole:
  assumes "n \<noteq> 0" and "\<bar>n * 1000\<bar> \<le> 8640000000000000"
  shows "times_1000 (Finite (of_int n)) = Finite (of_int (n * 1000))"
proof -
  have "\<bar>n * 1000\<bar> < 2 ^ 53" using assms(2) by simp
  moreover have "n * 1000 \<noteq> 0" using assms(1) by simp
  ultimately have "to_double (of_int (n * 1000)) = Finite (of_int (n * 1000))"
    by (rule to_double_of_int[rotated])
  then show ?thesis by (simp add: times_1000_def)
qed

text \<open>The date of a whole number of seconds within the range of dates.\<close>

lemma new_Date_whole:
  assumes "n \<noteq> 0" and "\<bar>n * 1000\<bar> \<le> 8640000000000000"
  shows "new_Date (times_1000 (Finite (of_int n))) = Date (n * 1000)"
proof -
  have "\<bar>rat_of_int (n * 1000)\<bar> \<le> 8640000000000000"
    using assms(2) by (metis of_int_abs of_int_le_iff of_int_numeral)
  then show ?thesis
    unfolding times_1000_whole[OF assms] new_Date_def
    by (simp del: of_int_mult)
qed

text \<open>A whole number from \<open>2\<^sup>5\<^sup>3\<close> on is rounded to a double that is no date.\<close>

lemma to_double_big:
  assumes "2 ^ 53 \<le> \<bar>k\<bar>"
  shows "new_Date (to_double (of_int k)) = Invalid_Date"
proof -
  let ?a = "\<bar>k\<bar>"
  have a: "0 < ?a" using assms by (smt (verit) zero_less_power)
  have b54: "54 \<le> bitlen ?a"
    using assms by (simp add: bitlen_ge_iff_power)
  define e where "e = bitlen ?a - 53"
  have e1: "1 \<le> e" using b54 by (simp add: e_def)
  have fl: "floor_log2 \<bar>rat_of_int k\<bar> = bitlen ?a - 1"
    using floor_log2_of_int[OF a] by simp
  have emax: "max (floor_log2 \<bar>rat_of_int k\<bar> - 52) (- 1074) = e"
    using fl e1 by (simp add: e_def)
  have pe: "(2::rat) powi e = 2 ^ nat e"
    using e1 by (simp add: power_int_def)
  define m where "m = round_half_even (\<bar>rat_of_int k\<bar> / 2 powi e)"
  have lo: "2 ^ nat (bitlen ?a - 1) \<le> ?a" using bitlen_bounds[OF a] by simp
  have split: "nat (bitlen ?a - 1) = 52 + nat e"
    using e1 by (simp add: e_def)
  have "(2::int) ^ 52 * 2 ^ nat e \<le> ?a"
    using lo unfolding split by (simp add: power_add)
  then have "rat_of_int (2 ^ 52 * 2 ^ nat e) \<le> rat_of_int ?a"
    by (simp only: of_int_le_iff)
  then have "(2::rat) ^ 52 * 2 ^ nat e \<le> \<bar>rat_of_int k\<bar>"
    by simp
  then have "(2::rat) ^ 52 \<le> \<bar>rat_of_int k\<bar> / 2 ^ nat e"
    by (simp add: pos_le_divide_eq)
  then have "rat_of_int (2 ^ 52) \<le> \<bar>rat_of_int k\<bar> / 2 ^ nat e"
    by simp
  then have "(2::int) ^ 52 \<le> \<lfloor>\<bar>rat_of_int k\<bar> / 2 ^ nat e\<rfloor>"
    by (simp only: le_floor_iff)
  also have "\<dots> \<le> round_half_even (\<bar>rat_of_int k\<bar> / 2 ^ nat e)"
    by (rule round_half_even_ge_floor)
  finally have m52: "2 ^ 52 \<le> m"
    by (simp only: m_def pe)
  have "(2::int) ^ 52 * 2 ^ 1 \<le> m * 2 ^ nat e"
    using m52 e1 by (intro mult_mono power_increasing) auto
  then have "rat_of_int (2 ^ 53) \<le> rat_of_int (m * 2 ^ nat e)"
    by (simp only: of_int_le_iff) simp
  then have v53: "(2::rat) ^ 53 \<le> of_int m * 2 ^ nat e"
    by simp
  have nz: "rat_of_int k \<noteq> 0" using a by simp
  have "0 \<le> m" using m52 by (rule order_trans[rotated]) simp
  then have mabs: "\<bar>rat_of_int m\<bar> = rat_of_int m" by simp
  have big: "\<not> \<bar>sgn (rat_of_int k) * (of_int m * 2 ^ nat e)\<bar> \<le> 8640000000000000"
    using v53 nz by (simp add: abs_mult sgn_if mabs)
  have "to_double (of_int k) =
          (if 2 ^ 1024 \<le> rat_of_int m * 2 ^ nat e then Infinity (0 < rat_of_int k)
           else Finite (sgn (rat_of_int k) * (rat_of_int m * 2 ^ nat e)))"
    unfolding to_double_def Let_def emax using nz by (simp add: m_def pe)
  then show ?thesis
    using big by (simp add: new_Date_def)
qed

lemma new_Date_whole_out_of_range:
  assumes "8640000000000000 < \<bar>n * 1000\<bar>"
  shows "new_Date (times_1000 (Finite (of_int n))) = Invalid_Date"
proof (cases "\<bar>n * 1000\<bar> < 2 ^ 53")
  case True
  have nz: "n * 1000 \<noteq> 0" using assms by auto
  have ex: "to_double (of_int (n * 1000)) = Finite (of_int (n * 1000))"
    using to_double_of_int[OF nz True] .
  have "\<not> \<bar>rat_of_int (n * 1000)\<bar> \<le> 8640000000000000"
    using assms by (metis of_int_abs of_int_le_iff of_int_numeral not_le)
  moreover have "rat_of_int n * 1000 = rat_of_int (n * 1000)" by simp
  ultimately show ?thesis
    unfolding times_1000_def js_number.case
    by (simp only: ex) (simp add: new_Date_def del: of_int_mult)
next
  case False
  then have "2 ^ 53 \<le> \<bar>n * 1000\<bar>" by simp
  from to_double_big[OF this] show ?thesis
    by (simp add: times_1000_def)
qed

section \<open>Properties of the upload loop\<close>

lemma remote_calls_append: "remote_calls (xs @ ys) = remote_calls xs @ remote_calls ys"
  by (induction xs rule: remote_calls.induct) simp_all

lemma remote_calls_call_events: "remote_calls (call_events cs) = cs"
  by (induction cs) (auto simp: call_events_def)

text \<open>The loop over a concatenation runs the second part only if the first part succeeded.\<close>

lemma crud_loop_append:
  "crud_loop client (pre @ rest) l st =
     (case crud_loop client pre l st of
        (None, l1, st1) \<Rightarrow> crud_loop client rest l1 st1
      | (Some ex, l1, st1) \<Rightarrow> (Some ex, l1, st1))"
  by (induction pre arbitrary: l st)
     (auto split: sum.splits prod.splits remote_reply.splits option.splits simp: Let_def)

text \<open>The loop neither acknowledges the transaction nor touches the session fields.\<close>

lemma crud_loop_frame:
  "crud_loop client es l st = (r, l', st') \<Longrightarrow>
     completions (effects st') = completions (effects st) \<and>
     ready st' = ready st \<and> currentSession st' = currentSession st"
  by (induction es arbitrary: l st)
     (auto split: sum.splits prod.splits remote_reply.splits option.splits
           simp: Let_def emit_def completions_def)

text \<open>
  On operations that the store accepts, the loop sends each request to the store, in
  order, and leaves the world as the store left it.
\<close>

lemma crud_loop_accepted:
  "store_accepts client es (world st) = Some w' \<Longrightarrow>
     crud_loop client es l st
       = (None, (if es = [] then l else Some (last es)),
          st\<lparr>world := w', effects := effects st @ call_events (requests es)\<rparr>)"
proof (induction es arbitrary: l st)
  case Nil
  then show ?case by (simp add: requests_def call_events_def)
next
  case (Cons e es)
  from Cons.prems obtain req w1 where
    d: "dispatch e = Inr req" and
    f: "from_table client (table e) req (world st) = (Resolved None, w1)" and
    r: "store_accepts client es w1 = Some w'"
    by (auto split: sum.splits prod.splits remote_reply.splits option.splits)
  let ?st1 = "emit (RemoteCall (table e) req) (st\<lparr>world := w1\<rparr>)"
  have "store_accepts client es (world ?st1) = Some w'"
    using r by (simp add: emit_def)
  from Cons.IH[OF this, of "Some e"] show ?case
    using d f by (simp add: Let_def emit_def requests_def call_of_def call_events_def)
qed

lemma store_accepts_length:
  "store_accepts client es w = Some w' \<Longrightarrow> length (requests es) = length es"
  by (induction es arbitrary: w)
     (auto split: sum.splits prod.splits remote_reply.splits option.splits
           simp: requests_def call_of_def)

lemma crud_loop_after_accepted:
  assumes "store_accepts client pre (world st) = Some w1"
  shows "crud_loop client (pre @ rest) l st
           = crud_loop client rest (if pre = [] then l else Some (last pre))
               (st\<lparr>world := w1, effects := effects st @ call_events (requests pre)\<rparr>)"
  by (simp only: crud_loop_append[of client pre] crud_loop_accepted[OF assms]) simp

text \<open>Entries are only ever added to the log.\<close>

lemma crud_loop_effects_mono:
  "crud_loop client es l st = (r, l', st') \<Longrightarrow> prefix (effects st) (effects st')"
proof (induction es arbitrary: l st)
  case Nil
  then show ?case by simp
next
  case (Cons e es)
  show ?case
  proof (cases "crud_loop client [e] l st")
    case (fields r1 l1 s1)
    have step: "prefix (effects st) (effects s1)"
      using fields
      by (auto split: sum.splits prod.splits remote_reply.splits option.splits
               simp: Let_def emit_def)
    show ?thesis
    proof (cases r1)
      case None
      have "crud_loop client ([e] @ es) l st = crud_loop client es l1 s1"
        using fields None by (simp only: crud_loop_append[of client "[e]"]) simp
      then have "crud_loop client es l1 s1 = (r, l', st')"
        using Cons.prems by simp
      from Cons.IH[OF this] show ?thesis
        using step by (rule prefix_order.order_trans[rotated])
    next
      case (Some ex)
      have "crud_loop client ([e] @ es) l st = (Some ex, l1, s1)"
        using fields Some by (simp only: crud_loop_append[of client "[e]"]) simp
      then have "st' = s1" using Cons.prems by simp
      then show ?thesis using step by simp
    qed
  qed
qed

section \<open>Properties of \<open>uploadData\<close>\<close>

lemma call_complete_calls:
  "remote_calls (effects (snd (call_complete tx s))) = remote_calls (effects s)"
  by (simp add: call_complete_def emit_def remote_calls_append split: prod.splits)

text \<open>What the \<^verbatim>\<open>catch\<close> block does with an exception of the loop.\<close>

lemma uploadData_caught:
  assumes "getNextCrudTransaction database (world st) = (Some tx, w)"
      and "crud_loop client (crud tx) None (emit GetNextCrudTransaction (st\<lparr>world := w\<rparr>))
             = (Some ex, l, s)"
  shows "uploadData client database st =
           (if is_fatal ex
            then call_complete tx (emit (LogDiscard l ex) (emit (LogCaught ex) s))
            else (Some ex, emit (LogCaught ex) s))"
  using assms by (simp add: uploadData_def Let_def)

text \<open>What happens after a loop without exception: the acknowledgement, which may fail.\<close>

lemma uploadData_looped:
  assumes "getNextCrudTransaction database (world st) = (Some tx, w)"
      and "crud_loop client (crud tx) None (emit GetNextCrudTransaction (st\<lparr>world := w\<rparr>))
             = (None, l, s)"
      and "complete tx (world s) = (r, w')"
  shows "uploadData client database st =
           (case r of
              None \<Rightarrow> (None, emit Complete (s\<lparr>world := w'\<rparr>))
            | Some ex \<Rightarrow>
                (if is_fatal ex
                 then call_complete tx
                        (emit (LogDiscard l ex) (emit (LogCaught ex) (emit Complete (s\<lparr>world := w'\<rparr>))))
                 else (Some ex, emit (LogCaught ex) (emit Complete (s\<lparr>world := w'\<rparr>)))))"
  using assms by (simp add: uploadData_def call_complete_def Let_def split: option.splits)

text \<open>The log of \<open>uploadData\<close> extends the log of its loop.\<close>

lemma uploadData_effects_mono:
  assumes "getNextCrudTransaction database (world st) = (Some tx, w)"
      and "crud_loop client (crud tx) None (emit GetNextCrudTransaction (st\<lparr>world := w\<rparr>))
             = (r, l, s)"
  shows "prefix (effects s) (effects (snd (uploadData client database st)))"
proof (cases r)
  case None
  obtain r' w' where c: "complete tx (world s) = (r', w')" by (cases "complete tx (world s)")
  show ?thesis
    unfolding uploadData_looped[OF assms(1) assms(2)[unfolded None] c]
    by (auto simp: emit_def call_complete_def prefix_def split: option.splits prod.splits)
next
  case (Some ex)
  show ?thesis
    unfolding uploadData_caught[OF assms(1) assms(2)[unfolded Some]]
    by (auto simp: emit_def call_complete_def prefix_def split: prod.splits)
qed

text \<open>Only the loop issues remote calls.\<close>

lemma uploadData_remote_calls:
  assumes "getNextCrudTransaction database (world st) = (Some tx, w)"
      and "crud_loop client (crud tx) None (emit GetNextCrudTransaction (st\<lparr>world := w\<rparr>))
             = (r, l, s)"
  shows "remote_calls (effects (snd (uploadData client database st))) = remote_calls (effects s)"
proof (cases r)
  case None
  obtain r' w' where c: "complete tx (world s) = (r', w')" by (cases "complete tx (world s)")
  show ?thesis
    unfolding uploadData_looped[OF assms(1) assms(2)[unfolded None] c]
    by (auto simp: emit_def call_complete_def remote_calls_append split: option.splits prod.splits)
next
  case (Some ex)
  show ?thesis
    unfolding uploadData_caught[OF assms(1) assms(2)[unfolded Some]]
    by (simp add: call_complete_calls) (simp add: emit_def remote_calls_append)
qed

text \<open>An error made with \<^verbatim>\<open>new Error(...)\<close> has no code, so it is never classified Fatal.\<close>

lemma new_Error_not_fatal: "\<not> is_fatal (new_Error m)"
  by (simp add: is_fatal_def new_Error_def)

lemma dispatch_error_not_fatal: "dispatch e = Inl ex \<Longrightarrow> \<not> is_fatal ex"
  by (auto simp: dispatch_def new_Error_not_fatal split: UpdateType.splits)

lemma put_record_id: "map_of (put_record e) ''id'' = Some (JStr (entry_id e))"
  by (simp add: put_record_def AList.update_conv')

lemma put_record_other:
  "k \<noteq> ''id'' \<Longrightarrow>
     map_of (put_record e) k = map_of (case opData e of None \<Rightarrow> [] | Some d \<Rightarrow> d) k"
  by (simp add: put_record_def AList.update_conv')

text \<open>
  The outcome of \<open>uploadData\<close> when the store has accepted the operations before \<open>e\<close>,
  by what becomes of \<open>e\<close>: it has no request; its call is rejected; its call reports an
  error; or it and all operations after it are accepted.
\<close>

lemma uploadData_no_request:
  assumes nxt: "getNextCrudTransaction database (world st) = (Some tx, w)"
      and ops: "crud tx = pre @ e # post"
      and pre: "store_accepts client pre w = Some w1"
      and bad: "dispatch e = Inl ex"
  shows "uploadData client database st
           = (Some ex,
              st\<lparr>world := w1,
                 effects := effects st @ GetNextCrudTransaction # call_events (requests pre)
                            @ [LogCaught ex]\<rparr>)"
proof -
  let ?st0 = "emit GetNextCrudTransaction (st\<lparr>world := w\<rparr>)"
  have p: "store_accepts client pre (world ?st0) = Some w1"
    using pre by (simp add: emit_def)
  have loop: "crud_loop client (crud tx) None ?st0
                = (Some ex, Some e,
                   ?st0\<lparr>world := w1, effects := effects ?st0 @ call_events (requests pre)\<rparr>)"
    unfolding ops crud_loop_after_accepted[OF p] using bad by simp
  show ?thesis
    unfolding uploadData_caught[OF nxt loop]
    using dispatch_error_not_fatal[OF bad] by (simp add: emit_def)
qed

lemma uploadData_rejected:
  assumes nxt: "getNextCrudTransaction database (world st) = (Some tx, w)"
      and ops: "crud tx = pre @ e # post"
      and pre: "store_accepts client pre w = Some w1"
      and req: "dispatch e = Inr req"
      and rep: "from_table client (table e) req w1 = (Rejected ex, w2)"
  shows "uploadData client database st
           = (if is_fatal ex
              then call_complete tx
                     (st\<lparr>world := w2,
                         effects := effects st @ GetNextCrudTransaction # call_events (requests pre)
                                    @ [RemoteCall (table e) req, LogCaught ex,
                                       LogDiscard (Some e) ex]\<rparr>)
              else (Some ex,
                    st\<lparr>world := w2,
                       effects := effects st @ GetNextCrudTransaction # call_events (requests pre)
                                  @ [RemoteCall (table e) req, LogCaught ex]\<rparr>))"
proof -
  let ?st0 = "emit GetNextCrudTransaction (st\<lparr>world := w\<rparr>)"
  have p: "store_accepts client pre (world ?st0) = Some w1"
    using pre by (simp add: emit_def)
  have loop: "crud_loop client (crud tx) None ?st0
                = (Some ex, Some e,
                   emit (RemoteCall (table e) req)
                     (?st0\<lparr>world := w2, effects := effects ?st0 @ call_events (requests pre)\<rparr>))"
    unfolding ops crud_loop_after_accepted[OF p] using req rep by (simp add: Let_def emit_def)
  show ?thesis
    unfolding uploadData_caught[OF nxt loop] by (simp add: emit_def)
qed

lemma uploadData_reported:
  assumes nxt: "getNextCrudTransaction database (world st) = (Some tx, w)"
      and ops: "crud tx = pre @ e # post"
      and pre: "store_accepts client pre w = Some w1"
      and req: "dispatch e = Inr req"
      and rep: "from_table client (table e) req w1 = (Resolved (Some err), w2)"
  shows "uploadData client database st
           = (Some (new_Error (''Could not update Supabase. Received error: '' @ message err)),
              st\<lparr>world := w2,
                 effects := effects st @ GetNextCrudTransaction # call_events (requests pre)
                            @ [RemoteCall (table e) req, LogResultError err,
                               LogCaught (new_Error (''Could not update Supabase. Received error: ''
                                                      @ message err))]\<rparr>)"
proof -
  let ?st0 = "emit GetNextCrudTransaction (st\<lparr>world := w\<rparr>)"
  let ?ex = "new_Error (''Could not update Supabase. Received error: '' @ message err)"
  have p: "store_accepts client pre (world ?st0) = Some w1"
    using pre by (simp add: emit_def)
  have loop: "crud_loop client (crud tx) None ?st0
                = (Some ?ex, Some e,
                   emit (LogResultError err) (emit (RemoteCall (table e) req)
                     (?st0\<lparr>world := w2, effects := effects ?st0 @ call_events (requests pre)\<rparr>)))"
    unfolding ops crud_loop_after_accepted[OF p] using req rep by (simp add: Let_def emit_def)
  show ?thesis
    unfolding uploadData_caught[OF nxt loop]
    using new_Error_not_fatal by (simp add: emit_def)
qed

lemma uploadData_all_accepted:
  assumes nxt: "getNextCrudTransaction database (world st) = (Some tx, w)"
      and acc: "store_accepts client (crud tx) w = Some w1"
      and ack: "complete tx w1 = (None, w2)"
  shows "uploadData client database st
           = (None,
              st\<lparr>world := w2,
                 effects := effects st @ GetNextCrudTransaction # call_events (requests (crud tx))
                            @ [Complete]\<rparr>)"
proof -
  let ?st0 = "emit GetNextCrudTransaction (st\<lparr>world := w\<rparr>)"
  let ?s = "?st0\<lparr>world := w1, effects := effects ?st0 @ call_events (requests (crud tx))\<rparr>"
  have p: "store_accepts client (crud tx) (world ?st0) = Some w1"
    using acc by (simp add: emit_def)
  have loop: "crud_loop client (crud tx) None ?st0
                = (None, (if crud tx = [] then None else Some (last (crud tx))), ?s)"
    using crud_loop_accepted[OF p] .
  have c: "complete tx (world ?s) = (None, w2)" using ack by simp
  show ?thesis
    unfolding uploadData_looped[OF nxt loop c] by (simp add: emit_def)
qed

lemma store_accepts_append:
  "store_accepts client (xs @ ys) w
     = (case store_accepts client xs w of None \<Rightarrow> None | Some w' \<Rightarrow> store_accepts client ys w')"
  by (induction xs arbitrary: w)
     (auto split: sum.splits prod.splits remote_reply.splits option.splits)

section \<open>The claims on \<open>uploadData\<close>\<close>

text \<open>
  Claim C1 says that a transaction in which a remote call reports an error with a Fatal
  code (class 22, class 23 or 42501) is acknowledged as complete and that no exception
  leaves \<open>uploadData\<close>. The code does otherwise. For the transaction made of the single
  operation Delete(todos, id = 2), whose remote call reports the foreign-key violation
  23503, a code the denylist matches, \<open>uploadData\<close> throws a new error that carries the
  message but not the code, the \<^verbatim>\<open>catch\<close> block finds no string-typed code on it and
  rethrows it, and \<^verbatim>\<open>complete()\<close> is never called.
\<close>

theorem uploadData_reported_fatal_code_not_discarded:
  "is_fatal fk_violation \<and>
   from_table (demo_client signed_in) ''todos'' (Delete ''2'') 1
     = (Resolved (Some fk_violation), 2) \<and>
   fst (uploadData (demo_client signed_in) (demo_database (Some [delete_2])) fresh)
     = Some (new_Error ''Could not update Supabase. Received error: violates foreign key constraint'') \<and>
   completions (effects (snd (uploadData (demo_client signed_in)
      (demo_database (Some [delete_2])) fresh))) = 0"
  by (simp add: fixture_defs run_defs)

text \<open>
  Claim C2: an error raised while the operations are dispatched, whose code matches no
  Fatal pattern or which has no string-typed code at all, leaves \<open>uploadData\<close>
  unchanged, and the transaction is not acknowledged: \<^verbatim>\<open>complete()\<close> is not called.
\<close>

theorem uploadData_transient_rethrown:
  assumes "getNextCrudTransaction database (world st) = (Some tx, w)"
      and "crud_loop client (crud tx) None (emit GetNextCrudTransaction (st\<lparr>world := w\<rparr>))
             = (Some ex, l, s)"
      and "\<And>c. code ex = JStr c \<Longrightarrow>
             \<not> list_ex (\<lambda>regex. regex_test regex c) FATAL_RESPONSE_CODES"
  shows "fst (uploadData client database st) = Some ex \<and>
         completions (effects (snd (uploadData client database st))) = completions (effects st)"
proof -
  have nf: "\<not> is_fatal ex"
    using assms(3) by (cases "code ex") (simp_all add: is_fatal_def)
  have up: "uploadData client database st = (Some ex, emit (LogCaught ex) s)"
    using uploadData_caught[OF assms(1,2)] nf by simp
  have "completions (effects s)
          = completions (effects (emit GetNextCrudTransaction (st\<lparr>world := w\<rparr>)))"
    using crud_loop_frame[OF assms(2)] by simp
  then show ?thesis
    using up by (simp add: emit_def completions_def)
qed

text \<open>
  The second operation of [Put, Patch, Patch] rejects, once with a network failure that
  has no code and once with the code 40001, which no pattern matches: either error
  reaches the caller as it is.
\<close>

theorem uploadData_transient_rethrown_witness:
  "fst (uploadData (demo_client signed_in) (demo_database (Some [put_1, patch_offline, patch_1])) fresh)
     = Some network_failure \<and>
   completions (effects (snd (uploadData (demo_client signed_in)
      (demo_database (Some [put_1, patch_offline, patch_1])) fresh))) = 0 \<and>
   fst (uploadData (demo_client signed_in) (demo_database (Some [put_1, patch_busy, patch_1])) fresh)
     = Some serialization_failure \<and>
   code serialization_failure = JStr ''40001'' \<and>
   completions (effects (snd (uploadData (demo_client signed_in)
      (demo_database (Some [put_1, patch_busy, patch_1])) fresh))) = 0"
proof -
  have n: "\<And>es. getNextCrudTransaction (demo_database (Some es)) (world fresh)
             = (Some (demo_transaction es), 1)"
    by (simp add: demo_database_def fresh_def)
  have l1: "crud_loop (demo_client signed_in) (crud (demo_transaction [put_1, patch_offline, patch_1]))
             None (emit GetNextCrudTransaction (fresh\<lparr>world := 1\<rparr>))
           = (Some network_failure, Some patch_offline,
              fresh\<lparr>world := 3,
                    effects := [GetNextCrudTransaction,
                                RemoteCall ''todos'' (Upsert (put_record put_1)),
                                RemoteCall ''offline'' (Update (opData patch_offline) ''7'')]\<rparr>)"
    by (simp add: demo_transaction_def demo_client_def fresh_def put_1_def patch_offline_def
                  dispatch_def emit_def Let_def)
  have l2: "crud_loop (demo_client signed_in) (crud (demo_transaction [put_1, patch_busy, patch_1]))
             None (emit GetNextCrudTransaction (fresh\<lparr>world := 1\<rparr>))
           = (Some serialization_failure, Some patch_busy,
              fresh\<lparr>world := 3,
                    effects := [GetNextCrudTransaction,
                                RemoteCall ''todos'' (Upsert (put_record put_1)),
                                RemoteCall ''busy'' (Update (opData patch_busy) ''8'')]\<rparr>)"
    by (simp add: demo_transaction_def demo_client_def fresh_def put_1_def patch_busy_def
                  dispatch_def emit_def Let_def)
  have c1: "\<And>c. code network_failure = JStr c \<Longrightarrow>
             \<not> list_ex (\<lambda>regex. regex_test regex c) FATAL_RESPONSE_CODES"
    by (simp add: network_failure_def)
  have c2: "\<And>c. code serialization_failure = JStr c \<Longrightarrow>
             \<not> list_ex (\<lambda>regex. regex_test regex c) FATAL_RESPONSE_CODES"
    by (simp add: serialization_failure_def FATAL_RESPONSE_CODES_def)
  show ?thesis
    using uploadData_transient_rethrown[OF n l1 c1] uploadData_transient_rethrown[OF n l2 c2]
    by (simp add: fresh_def completions_def serialization_failure_def)
qed

text \<open>
  Claim C3: let the store accept the operations before \<open>e\<close>, leaving the world in \<open>w1\<close>,
  and let \<open>e\<close> be the first to fail: it has no request, or the store, called with its
  request in \<open>w1\<close>, reports an error or rejects the call. Then the remote calls of
  \<open>uploadData\<close> are the calls of the earlier operations, one for each and in their order,
  followed by the call of \<open>e\<close> if it has one; the store is left as the last of these
  calls left it, and nothing is sent for the operations after \<open>e\<close>.
\<close>

theorem uploadData_stops_at_first_failure:
  assumes nxt: "getNextCrudTransaction database (world st) = (Some tx, w)"
      and ops: "crud tx = pre @ e # post"
      and pre: "store_accepts client pre w = Some w1"
  shows
    "length (requests pre) = length pre \<and>
     (\<forall>ex. dispatch e = Inl ex \<longrightarrow>
        uploadData client database st
          = (Some ex,
             st\<lparr>world := w1,
                effects := effects st @ GetNextCrudTransaction # call_events (requests pre)
                           @ [LogCaught ex]\<rparr>) \<and>
        remote_calls (effects (snd (uploadData client database st)))
          = remote_calls (effects st) @ requests pre) \<and>
     (\<forall>req err w2.
        dispatch e = Inr req \<and> from_table client (table e) req w1 = (Resolved (Some err), w2) \<longrightarrow>
        uploadData client database st
          = (Some (new_Error (''Could not update Supabase. Received error: '' @ message err)),
             st\<lparr>world := w2,
                effects := effects st @ GetNextCrudTransaction # call_events (requests pre)
                           @ [RemoteCall (table e) req, LogResultError err,
                              LogCaught (new_Error (''Could not update Supabase. Received error: ''
                                                     @ message err))]\<rparr>) \<and>
        remote_calls (effects (snd (uploadData client database st)))
          = remote_calls (effects st) @ requests pre @ [(table e, req)]) \<and>
     (\<forall>req ex w2.
        dispatch e = Inr req \<and> from_table client (table e) req w1 = (Rejected ex, w2) \<longrightarrow>
        uploadData client database st
          = (if is_fatal ex
             then call_complete tx
                    (st\<lparr>world := w2,
                        effects := effects st @ GetNextCrudTransaction # call_events (requests pre)
                                   @ [RemoteCall (table e) req, LogCaught ex,
                                      LogDiscard (Some e) ex]\<rparr>)
             else (Some ex,
                   st\<lparr>world := w2,
                      effects := effects st @ GetNextCrudTransaction # call_events (requests pre)
                                 @ [RemoteCall (table e) req, LogCaught ex]\<rparr>)) \<and>
        remote_calls (effects (snd (uploadData client database st)))
          = remote_calls (effects st) @ requests pre @ [(table e, req)])"
proof -
  have len: "length (requests pre) = length pre"
    using store_accepts_length[OF pre] .
  have a: "uploadData client database st
          = (Some ex,
             st\<lparr>world := w1,
                effects := effects st @ GetNextCrudTransaction # call_events (requests pre)
                           @ [LogCaught ex]\<rparr>) \<and>
        remote_calls (effects (snd (uploadData client database st)))
          = remote_calls (effects st) @ requests pre"
    if "dispatch e = Inl ex" for ex
    unfolding uploadData_no_request[OF nxt ops pre that]
    by (simp add: remote_calls_append remote_calls_call_events)
  have b: "uploadData client database st
          = (Some (new_Error (''Could not update Supabase. Received error: '' @ message err)),
             st\<lparr>world := w2,
                effects := effects st @ GetNextCrudTransaction # call_events (requests pre)
                           @ [RemoteCall (table e) req, LogResultError err,
                              LogCaught (new_Error (''Could not update Supabase. Received error: ''
                                                     @ message err))]\<rparr>) \<and>
        remote_calls (effects (snd (uploadData client database st)))
          = remote_calls (effects st) @ requests pre @ [(table e, req)]"
    if "dispatch e = Inr req" "from_table client (table e) req w1 = (Resolved (Some err), w2)"
    for req err w2
    unfolding uploadData_reported[OF nxt ops pre that]
    by (simp add: remote_calls_append remote_calls_call_events)
  have c: "uploadData client database st
          = (if is_fatal ex
             then call_complete tx
                    (st\<lparr>world := w2,
                        effects := effects st @ GetNextCrudTransaction # call_events (requests pre)
                                   @ [RemoteCall (table e) req, LogCaught ex,
                                      LogDiscard (Some e) ex]\<rparr>)
             else (Some ex,
                   st\<lparr>world := w2,
                      effects := effects st @ GetNextCrudTransaction # call_events (requests pre)
                                 @ [RemoteCall (table e) req, LogCaught ex]\<rparr>)) \<and>
        remote_calls (effects (snd (uploadData client database st)))
          = remote_calls (effects st) @ requests pre @ [(table e, req)]"
    if "dispatch e = Inr req" "from_table client (table e) req w1 = (Rejected ex, w2)"
    for req ex w2
    unfolding uploadData_rejected[OF nxt ops pre that]
    by (simp add: call_complete_calls remote_calls_append remote_calls_call_events)
  show ?thesis
    using len a b c by blast
qed

text \<open>
  In [Put 1, \<open>e\<close>, Patch 1] the second operation fails in each of the four ways: the
  delete reports an error, the patch on the unreachable table is rejected without a
  code, the put on the locked table is rejected with a Fatal code, and the merge has
  no request. The patch after it is never sent.
\<close>

theorem uploadData_stops_at_first_failure_witness:
  "uploadData (demo_client signed_in) (demo_database (Some [put_1, delete_2, patch_1])) fresh
     = (Some (new_Error ''Could not update Supabase. Received error: violates foreign key constraint''),
        fresh\<lparr>world := 3,
              effects := [GetNextCrudTransaction,
                          RemoteCall ''todos'' (Upsert [(''description'', JStr ''buy milk''), (''id'', JStr ''1'')]),
                          RemoteCall ''todos'' (Delete ''2''),
                          LogResultError fk_violation,
                          LogCaught (new_Error ''Could not update Supabase. Received error: violates foreign key constraint'')]\<rparr>) \<and>
   uploadData (demo_client signed_in) (demo_database (Some [put_1, patch_offline, patch_1])) fresh
     = (Some network_failure,
        fresh\<lparr>world := 3,
              effects := [GetNextCrudTransaction,
                          RemoteCall ''todos'' (Upsert [(''description'', JStr ''buy milk''), (''id'', JStr ''1'')]),
                          RemoteCall ''offline'' (Update (Some [(''completed'', JNum 0)]) ''7''),
                          LogCaught network_failure]\<rparr>) \<and>
   uploadData (demo_client signed_in) (demo_database (Some [put_1, put_locked, patch_1])) fresh
     = (None,
        fresh\<lparr>world := 4,
              effects := [GetNextCrudTransaction,
                          RemoteCall ''todos'' (Upsert [(''description'', JStr ''buy milk''), (''id'', JStr ''1'')]),
                          RemoteCall ''locked'' (Upsert [(''id'', JStr ''9'')]),
                          LogCaught permission_denied,
                          LogDiscard (Some put_locked) permission_denied,
                          Complete]\<rparr>) \<and>
   uploadData (demo_client signed_in) (demo_database (Some [put_1, merge_3, patch_1])) fresh
     = (Some (new_Error ''Unsupported operation type: MERGE''),
        fresh\<lparr>world := 2,
              effects := [GetNextCrudTransaction,
                          RemoteCall ''todos'' (Upsert [(''description'', JStr ''buy milk''), (''id'', JStr ''1'')]),
                          LogCaught (new_Error ''Unsupported operation type: MERGE'')]\<rparr>) \<and>
   remote_calls (effects (snd (uploadData (demo_client signed_in)
      (demo_database (Some [put_1, delete_2, patch_1])) fresh)))
     = [(''todos'', Upsert [(''description'', JStr ''buy milk''), (''id'', JStr ''1'')]),
        (''todos'', Delete ''2'')]"
proof -
  let ?C = "demo_client signed_in"
  have n: "\<And>es. getNextCrudTransaction (demo_database (Some es)) (world fresh)
             = (Some (demo_transaction es), 1)"
    by (simp add: demo_database_def fresh_def)
  have o: "\<And>e. crud (demo_transaction [put_1, e, patch_1] :: nat CrudTransaction)
                  = [put_1] @ e # [patch_1]"
    by (simp add: demo_transaction_def)
  have p: "store_accepts ?C [put_1] 1 = Some 2"
    by (simp add: demo_client_def put_1_def dispatch_def)
  have rq: "requests [put_1] = [(''todos'', Upsert [(''description'', JStr ''buy milk''), (''id'', JStr ''1'')])]"
    by (simp add: requests_def call_of_def dispatch_def put_record_def put_1_def)
  have d1: "dispatch delete_2 = Inr (Delete ''2'')"
           "from_table ?C (table delete_2) (Delete ''2'') 2 = (Resolved (Some fk_violation), 3)"
    by (simp_all add: delete_2_def dispatch_def demo_client_def)
  have d2: "dispatch patch_offline = Inr (Update (Some [(''completed'', JNum 0)]) ''7'')"
           "from_table ?C (table patch_offline) (Update (Some [(''completed'', JNum 0)]) ''7'') 2
              = (Rejected network_failure, 3)"
    by (simp_all add: patch_offline_def dispatch_def demo_client_def)
  have d3: "dispatch put_locked = Inr (Upsert [(''id'', JStr ''9'')])"
           "from_table ?C (table put_locked) (Upsert [(''id'', JStr ''9'')]) 2
              = (Rejected permission_denied, 3)"
    by (simp_all add: put_locked_def dispatch_def put_record_def demo_client_def)
  have d4: "dispatch merge_3 = Inl (new_Error ''Unsupported operation type: MERGE'')"
    by (simp add: merge_3_def dispatch_def)
  have f2: "\<not> is_fatal network_failure" "is_fatal permission_denied"
    by (simp_all add: is_fatal_def network_failure_def permission_denied_def
                      FATAL_RESPONSE_CODES_def)
  note T1 = uploadData_stops_at_first_failure[OF n o p, of delete_2]
  note T2 = uploadData_stops_at_first_failure[OF n o p, of patch_offline]
  note T3 = uploadData_stops_at_first_failure[OF n o p, of put_locked]
  note T4 = uploadData_stops_at_first_failure[OF n o p, of merge_3]
  have 1: "uploadData ?C (demo_database (Some [put_1, delete_2, patch_1])) fresh
     = (Some (new_Error ''Could not update Supabase. Received error: violates foreign key constraint''),
        fresh\<lparr>world := 3,
              effects := [GetNextCrudTransaction,
                          RemoteCall ''todos'' (Upsert [(''description'', JStr ''buy milk''), (''id'', JStr ''1'')]),
                          RemoteCall ''todos'' (Delete ''2''),
                          LogResultError fk_violation,
                          LogCaught (new_Error ''Could not update Supabase. Received error: violates foreign key constraint'')]\<rparr>)"
       "remote_calls (effects (snd (uploadData ?C (demo_database (Some [put_1, delete_2, patch_1])) fresh)))
     = [(''todos'', Upsert [(''description'', JStr ''buy milk''), (''id'', JStr ''1'')]),
        (''todos'', Delete ''2'')]"
    using T1[THEN conjunct2, THEN conjunct2, THEN conjunct1, rule_format, OF conjI[OF d1]]
    by (simp_all add: rq call_events_def delete_2_def fk_violation_def fresh_def)
  have 2: "uploadData ?C (demo_database (Some [put_1, patch_offline, patch_1])) fresh
     = (Some network_failure,
        fresh\<lparr>world := 3,
              effects := [GetNextCrudTransaction,
                          RemoteCall ''todos'' (Upsert [(''description'', JStr ''buy milk''), (''id'', JStr ''1'')]),
                          RemoteCall ''offline'' (Update (Some [(''completed'', JNum 0)]) ''7''),
                          LogCaught network_failure]\<rparr>)"
    using T2[THEN conjunct2, THEN conjunct2, THEN conjunct2, rule_format, OF conjI[OF d2]] f2
    by (simp add: rq call_events_def patch_offline_def fresh_def)
  have 3: "uploadData ?C (demo_database (Some [put_1, put_locked, patch_1])) fresh
     = (None,
        fresh\<lparr>world := 4,
              effects := [GetNextCrudTransaction,
                          RemoteCall ''todos'' (Upsert [(''description'', JStr ''buy milk''), (''id'', JStr ''1'')]),
                          RemoteCall ''locked'' (Upsert [(''id'', JStr ''9'')]),
                          LogCaught permission_denied,
                          LogDiscard (Some put_locked) permission_denied,
                          Complete]\<rparr>)"
    using T3[THEN conjunct2, THEN conjunct2, THEN conjunct2, rule_format, OF conjI[OF d3]] f2
    by (simp add: rq call_events_def call_complete_def emit_def demo_transaction_def fresh_def)
       (simp add: put_locked_def)
  have 4: "uploadData ?C (demo_database (Some [put_1, merge_3, patch_1])) fresh
     = (Some (new_Error ''Unsupported operation type: MERGE''),
        fresh\<lparr>world := 2,
              effects := [GetNextCrudTransaction,
                          RemoteCall ''todos'' (Upsert [(''description'', JStr ''buy milk''), (''id'', JStr ''1'')]),
                          LogCaught (new_Error ''Unsupported operation type: MERGE'')]\<rparr>)"
    using T4[THEN conjunct2, THEN conjunct1, rule_format, OF d4]
    by (simp add: rq call_events_def fresh_def)
  show ?thesis using 1 2 3 4 by blast
qed

text \<open>Whatever the store answers, the request of an operation reaches it after those before it.\<close>

lemma uploadData_call_issued:
  assumes nxt: "getNextCrudTransaction database (world st) = (Some tx, w)"
      and ops: "crud tx = pre @ e # post"
      and pre: "store_accepts client pre w = Some w1"
      and req: "dispatch e = Inr req"
  shows "prefix (effects st @ GetNextCrudTransaction # call_events (requests pre)
                 @ [RemoteCall (table e) req])
                (effects (snd (uploadData client database st)))"
proof -
  let ?st0 = "emit GetNextCrudTransaction (st\<lparr>world := w\<rparr>)"
  let ?S = "?st0\<lparr>world := w1, effects := effects ?st0 @ call_events (requests pre)\<rparr>"
  let ?l = "if pre = [] then None else Some (last pre)"
  obtain reply w2 where rep: "from_table client (table e) req w1 = (reply, w2)"
    by (cases "from_table client (table e) req w1")
  let ?S1 = "emit (RemoteCall (table e) req) (?S\<lparr>world := w2\<rparr>)"
  obtain r l s where whole: "crud_loop client (crud tx) None ?st0 = (r, l, s)"
    by (cases "crud_loop client (crud tx) None ?st0")
  have p: "store_accepts client pre (world ?st0) = Some w1"
    using pre by (simp add: emit_def)
  have rest: "crud_loop client (e # post) ?l ?S = (r, l, s)"
    using whole unfolding ops crud_loop_after_accepted[OF p] .
  have "prefix (effects ?S1) (effects s)"
  proof (cases reply)
    case (Rejected ex)
    then show ?thesis using rest req rep by (simp add: Let_def)
  next
    case (Resolved oe)
    show ?thesis
    proof (cases oe)
      case None
      then have "crud_loop client post (Some e) ?S1 = (r, l, s)"
        using rest req rep Resolved by (simp add: Let_def)
      then show ?thesis by (rule crud_loop_effects_mono)
    next
      case (Some err)
      then have "s = emit (LogResultError err) ?S1"
        using rest req rep Resolved by (simp add: Let_def)
      then show ?thesis by (simp add: emit_def)
    qed
  qed
  moreover have "prefix (effects s) (effects (snd (uploadData client database st)))"
    using uploadData_effects_mono[OF nxt whole] .
  ultimately have "prefix (effects ?S1) (effects (snd (uploadData client database st)))"
    by (rule prefix_order.order_trans)
  then show ?thesis by (simp add: emit_def)
qed

lemma completions_call_events: "completions (call_events cs) = 0"
  by (induction cs) (auto simp: completions_def call_events_def)

text \<open>
  Claim C4: each operation is dispatched by its kind. Let the store accept the
  operations before \<open>e\<close>, leaving the world in \<open>w1\<close>. For a Put the store is then called
  on the operation's table with an upsert of the payload with the identifier as its \<open>id\<close>
  field (the identifier wins over an \<open>id\<close> of the payload, the other columns are kept);
  for a Patch, with an update with the payload matched on the identifier; for a Delete,
  with a delete matched on the identifier. The call is made in the world \<open>w1\<close> and its
  answer decides the outcome: the result of \<open>uploadData\<close> is given for each answer. For
  any other kind \<open>uploadData\<close> fails with an error that names the kind, the store is not
  called again and the transaction is not acknowledged.
\<close>

theorem uploadData_dispatch_by_kind:
  assumes nxt: "getNextCrudTransaction database (world st) = (Some tx, w)"
      and ops: "crud tx = pre @ e # post"
      and pre: "store_accepts client pre w = Some w1"
  shows
    "(\<forall>req reply w2.
        (op e = PUT \<and> req = Upsert (put_record e) \<or>
         op e = PATCH \<and> req = Update (opData e) (entry_id e) \<or>
         op e = DELETE \<and> req = Delete (entry_id e)) \<and>
        from_table client (table e) req w1 = (reply, w2) \<longrightarrow>
          prefix (effects st @ GetNextCrudTransaction # call_events (requests pre)
                  @ [RemoteCall (table e) req])
                 (effects (snd (uploadData client database st))) \<and>
          (\<forall>w3 w4.
             reply = Resolved None \<and> store_accepts client post w2 = Some w3 \<and>
             complete tx w3 = (None, w4) \<longrightarrow>
               uploadData client database st
                 = (None,
                    st\<lparr>world := w4,
                       effects := effects st @ GetNextCrudTransaction # call_events (requests pre)
                                  @ RemoteCall (table e) req # call_events (requests post)
                                  @ [Complete]\<rparr>)) \<and>
          (\<forall>err.
             reply = Resolved (Some err) \<longrightarrow>
               uploadData client database st
                 = (Some (new_Error (''Could not update Supabase. Received error: '' @ message err)),
                    st\<lparr>world := w2,
                       effects := effects st @ GetNextCrudTransaction # call_events (requests pre)
                                  @ [RemoteCall (table e) req, LogResultError err,
                                     LogCaught (new_Error (''Could not update Supabase. Received error: ''
                                                            @ message err))]\<rparr>)) \<and>
          (\<forall>ex.
             reply = Rejected ex \<longrightarrow>
               uploadData client database st
                 = (if is_fatal ex
                    then call_complete tx
                           (st\<lparr>world := w2,
                               effects := effects st @ GetNextCrudTransaction
                                          # call_events (requests pre)
                                          @ [RemoteCall (table e) req, LogCaught ex,
                                             LogDiscard (Some e) ex]\<rparr>)
                    else (Some ex,
                          st\<lparr>world := w2,
                             effects := effects st @ GetNextCrudTransaction
                                        # call_events (requests pre)
                                        @ [RemoteCall (table e) req, LogCaught ex]\<rparr>)))) \<and>
     map_of (put_record e) ''id'' = Some (JStr (entry_id e)) \<and>
     (\<forall>k. k \<noteq> ''id'' \<longrightarrow>
        map_of (put_record e) k = map_of (case opData e of None \<Rightarrow> [] | Some d \<Rightarrow> d) k) \<and>
     (\<forall>k. op e = Unknown k \<longrightarrow>
        uploadData client database st
          = (Some (new_Error (''Unsupported operation type: '' @ k)),
             st\<lparr>world := w1,
                effects := effects st @ GetNextCrudTransaction # call_events (requests pre)
                           @ [LogCaught (new_Error (''Unsupported operation type: '' @ k))]\<rparr>) \<and>
        remote_calls (effects (snd (uploadData client database st)))
          = remote_calls (effects st) @ requests pre \<and>
        completions (effects (snd (uploadData client database st))) = completions (effects st))"
proof -
  let ?res = "uploadData client database st"
  have d: "dispatch e = Inr req"
    if "op e = PUT \<and> req = Upsert (put_record e) \<or>
        op e = PATCH \<and> req = Update (opData e) (entry_id e) \<or>
        op e = DELETE \<and> req = Delete (entry_id e)" for req
    using that by (auto simp: dispatch_def)
  have issued: "prefix (effects st @ GetNextCrudTransaction # call_events (requests pre)
                        @ [RemoteCall (table e) req])
                       (effects (snd ?res))"
    if "op e = PUT \<and> req = Upsert (put_record e) \<or>
        op e = PATCH \<and> req = Update (opData e) (entry_id e) \<or>
        op e = DELETE \<and> req = Delete (entry_id e)" for req
    using uploadData_call_issued[OF nxt ops pre d[OF that]] .
  have ok: "?res = (None,
                st\<lparr>world := w4,
                   effects := effects st @ GetNextCrudTransaction # call_events (requests pre)
                              @ RemoteCall (table e) req # call_events (requests post)
                              @ [Complete]\<rparr>)"
    if kind: "op e = PUT \<and> req = Upsert (put_record e) \<or>
              op e = PATCH \<and> req = Update (opData e) (entry_id e) \<or>
              op e = DELETE \<and> req = Delete (entry_id e)"
       and rep: "from_table client (table e) req w1 = (reply, w2)"
       and res: "reply = Resolved None"
       and rest: "store_accepts client post w2 = Some w3"
       and ack: "complete tx w3 = (None, w4)"
    for req reply w2 w3 w4
  proof -
    have one: "store_accepts client (e # post) w1 = Some w3"
      using d[OF kind] rep res rest by simp
    have acc: "store_accepts client (crud tx) w = Some w3"
      unfolding ops store_accepts_append using one by (simp add: pre)
    have rq: "requests (crud tx) = requests pre @ (table e, req) # requests post"
      unfolding ops using d[OF kind] by (simp add: requests_def call_of_def)
    show ?thesis
      unfolding uploadData_all_accepted[OF nxt acc ack] rq
      by (simp add: call_events_def)
  qed
  have rp: "?res = (Some (new_Error (''Could not update Supabase. Received error: '' @ message err)),
                st\<lparr>world := w2,
                   effects := effects st @ GetNextCrudTransaction # call_events (requests pre)
                              @ [RemoteCall (table e) req, LogResultError err,
                                 LogCaught (new_Error (''Could not update Supabase. Received error: ''
                                                        @ message err))]\<rparr>)"
    if kind: "op e = PUT \<and> req = Upsert (put_record e) \<or>
              op e = PATCH \<and> req = Update (opData e) (entry_id e) \<or>
              op e = DELETE \<and> req = Delete (entry_id e)"
       and rep: "from_table client (table e) req w1 = (reply, w2)"
       and res: "reply = Resolved (Some err)"
    for req reply w2 err
    using uploadData_reported[OF nxt ops pre d[OF kind] rep[unfolded res]] .
  have rj: "?res = (if is_fatal ex
                then call_complete tx
                       (st\<lparr>world := w2,
                           effects := effects st @ GetNextCrudTransaction
                                      # call_events (requests pre)
                                      @ [RemoteCall (table e) req, LogCaught ex,
                                         LogDiscard (Some e) ex]\<rparr>)
                else (Some ex,
                      st\<lparr>world := w2,
                         effects := effects st @ GetNextCrudTransaction
                                    # call_events (requests pre)
                                    @ [RemoteCall (table e) req, LogCaught ex]\<rparr>))"
    if kind: "op e = PUT \<and> req = Upsert (put_record e) \<or>
              op e = PATCH \<and> req = Update (opData e) (entry_id e) \<or>
              op e = DELETE \<and> req = Delete (entry_id e)"
       and rep: "from_table client (table e) req w1 = (reply, w2)"
       and res: "reply = Rejected ex"
    for req reply w2 ex
    using uploadData_rejected[OF nxt ops pre d[OF kind] rep[unfolded res]] .
  have unknown:
    "?res = (Some (new_Error (''Unsupported operation type: '' @ k)),
             st\<lparr>world := w1,
                effects := effects st @ GetNextCrudTransaction # call_events (requests pre)
                           @ [LogCaught (new_Error (''Unsupported operation type: '' @ k))]\<rparr>)"
    "remote_calls (effects (snd ?res)) = remote_calls (effects st) @ requests pre"
    "completions (effects (snd ?res)) = completions (effects st)"
    if k: "op e = Unknown k" for k
  proof -
    have bad: "dispatch e = Inl (new_Error (''Unsupported operation type: '' @ k))"
      using k by (simp add: dispatch_def)
    show "?res = (Some (new_Error (''Unsupported operation type: '' @ k)),
             st\<lparr>world := w1,
                effects := effects st @ GetNextCrudTransaction # call_events (requests pre)
                           @ [LogCaught (new_Error (''Unsupported operation type: '' @ k))]\<rparr>)"
      using uploadData_no_request[OF nxt ops pre bad] .
    show "remote_calls (effects (snd ?res)) = remote_calls (effects st) @ requests pre"
      unfolding uploadData_no_request[OF nxt ops pre bad]
      by (simp add: remote_calls_append remote_calls_call_events)
    show "completions (effects (snd ?res)) = completions (effects st)"
      unfolding uploadData_no_request[OF nxt ops pre bad]
      by (simp add: completions_def completions_call_events[unfolded completions_def])
  qed
  show ?thesis
    by (intro conjI allI impI; (elim conjE)?;
        (rule issued ok rp rj unknown put_record_id put_record_other; assumption))
qed

text \<open>
  One transaction per kind and answer: a Put alone, whose payload already has an \<open>id\<close>
  that the identifier replaces; a Patch after a Put; a Delete, for which the store
  reports an error; a Patch that the store rejects; and an operation of the unknown
  kind MERGE.
\<close>

theorem uploadData_dispatch_by_kind_witness:
  "uploadData (demo_client signed_in) (demo_database (Some [put_4])) fresh
     = (None,
        fresh\<lparr>world := 3,
              effects := [GetNextCrudTransaction,
                          RemoteCall ''todos'' (Upsert [(''id'', JStr ''4''), (''description'', JStr ''call home'')]),
                          Complete]\<rparr>) \<and>
   map_of (put_record put_4) ''id'' = Some (JStr ''4'') \<and>
   map_of (put_record put_4) ''description'' = Some (JStr ''call home'') \<and>
   uploadData (demo_client signed_in) (demo_database (Some [put_1, patch_1])) fresh
     = (None,
        fresh\<lparr>world := 4,
              effects := [GetNextCrudTransaction,
                          RemoteCall ''todos'' (Upsert [(''description'', JStr ''buy milk''), (''id'', JStr ''1'')]),
                          RemoteCall ''todos'' (Update (Some [(''completed'', JNum 1)]) ''1''),
                          Complete]\<rparr>) \<and>
   uploadData (demo_client signed_in) (demo_database (Some [put_1, delete_2, patch_1])) fresh
     = (Some (new_Error ''Could not update Supabase. Received error: violates foreign key constraint''),
        fresh\<lparr>world := 3,
              effects := [GetNextCrudTransaction,
                          RemoteCall ''todos'' (Upsert [(''description'', JStr ''buy milk''), (''id'', JStr ''1'')]),
                          RemoteCall ''todos'' (Delete ''2''),
                          LogResultError fk_violation,
                          LogCaught (new_Error ''Could not update Supabase. Received error: violates foreign key constraint'')]\<rparr>) \<and>
   uploadData (demo_client signed_in) (demo_database (Some [put_1, patch_busy, patch_1])) fresh
     = (Some serialization_failure,
        fresh\<lparr>world := 3,
              effects := [GetNextCrudTransaction,
                          RemoteCall ''todos'' (Upsert [(''description'', JStr ''buy milk''), (''id'', JStr ''1'')]),
                          RemoteCall ''busy'' (Update (Some [(''completed'', JNum 1)]) ''8''),
                          LogCaught serialization_failure]\<rparr>) \<and>
   uploadData (demo_client signed_in) (demo_database (Some [put_1, merge_3, patch_1])) fresh
     = (Some (new_Error ''Unsupported operation type: MERGE''),
        fresh\<lparr>world := 2,
              effects := [GetNextCrudTransaction,
                          RemoteCall ''todos'' (Upsert [(''description'', JStr ''buy milk''), (''id'', JStr ''1'')]),
                          LogCaught (new_Error ''Unsupported operation type: MERGE'')]\<rparr>) \<and>
   completions (effects (snd (uploadData (demo_client signed_in)
      (demo_database (Some [put_1, merge_3, patch_1])) fresh))) = 0"
proof -
  let ?C = "demo_client signed_in"
  have n: "\<And>es. getNextCrudTransaction (demo_database (Some es)) (world fresh)
             = (Some (demo_transaction es), 1)"
    by (simp add: demo_database_def fresh_def)
  have o0: "crud (demo_transaction [put_4] :: nat CrudTransaction) = [] @ put_4 # []"
    by (simp add: demo_transaction_def)
  have o1: "crud (demo_transaction [put_1, patch_1] :: nat CrudTransaction) = [put_1] @ patch_1 # []"
    by (simp add: demo_transaction_def)
  have o2: "\<And>e. crud (demo_transaction [put_1, e, patch_1] :: nat CrudTransaction)
                  = [put_1] @ e # [patch_1]"
    by (simp add: demo_transaction_def)
  have p0: "store_accepts ?C [] 1 = Some 1" by simp
  have p1: "store_accepts ?C [put_1] 1 = Some 2"
    by (simp add: demo_client_def put_1_def dispatch_def)
  have e0: "store_accepts ?C [] 2 = Some 2" "store_accepts ?C [] 3 = Some 3" by simp_all
  have ack: "\<And>es w. complete (demo_transaction es) w = (None, Suc w)"
    by (simp add: demo_transaction_def)
  have rq: "requests [put_1] = [(''todos'', Upsert [(''description'', JStr ''buy milk''), (''id'', JStr ''1'')])]"
           "requests [] = []"
    by (simp_all add: requests_def call_of_def dispatch_def put_record_def put_1_def)
  have pr: "put_record put_4 = [(''id'', JStr ''4''), (''description'', JStr ''call home'')]"
    by (simp add: put_record_def put_4_def)
  have k0: "op put_4 = PUT \<and> Upsert (put_record put_4) = Upsert (put_record put_4) \<or>
            op put_4 = PATCH \<and> Upsert (put_record put_4) = Update (opData put_4) (entry_id put_4) \<or>
            op put_4 = DELETE \<and> Upsert (put_record put_4) = Delete (entry_id put_4)"
    by (simp add: put_4_def)
  have f0: "from_table ?C (table put_4) (Upsert (put_record put_4)) 1 = (Resolved None, 2)"
    by (simp add: demo_client_def put_4_def)
  have k1: "op patch_1 = PUT \<and> Update (opData patch_1) (entry_id patch_1) = Upsert (put_record patch_1) \<or>
            op patch_1 = PATCH \<and> Update (opData patch_1) (entry_id patch_1)
                                   = Update (opData patch_1) (entry_id patch_1) \<or>
            op patch_1 = DELETE \<and> Update (opData patch_1) (entry_id patch_1) = Delete (entry_id patch_1)"
    by (simp add: patch_1_def)
  have f1: "from_table ?C (table patch_1) (Update (opData patch_1) (entry_id patch_1)) 2
              = (Resolved None, 3)"
    by (simp add: demo_client_def patch_1_def)
  have k2: "op delete_2 = PUT \<and> Delete (entry_id delete_2) = Upsert (put_record delete_2) \<or>
            op delete_2 = PATCH \<and> Delete (entry_id delete_2)
                                    = Update (opData delete_2) (entry_id delete_2) \<or>
            op delete_2 = DELETE \<and> Delete (entry_id delete_2) = Delete (entry_id delete_2)"
    by (simp add: delete_2_def)
  have f2: "from_table ?C (table delete_2) (Delete (entry_id delete_2)) 2
              = (Resolved (Some fk_violation), 3)"
    by (simp add: demo_client_def delete_2_def)
  have k3: "op patch_busy = PUT \<and> Update (opData patch_busy) (entry_id patch_busy)
                                   = Upsert (put_record patch_busy) \<or>
            op patch_busy = PATCH \<and> Update (opData patch_busy) (entry_id patch_busy)
                                     = Update (opData patch_busy) (entry_id patch_busy) \<or>
            op patch_busy = DELETE \<and> Update (opData patch_busy) (entry_id patch_busy)
                                      = Delete (entry_id patch_busy)"
    by (simp add: patch_busy_def)
  have f3: "from_table ?C (table patch_busy) (Update (opData patch_busy) (entry_id patch_busy)) 2
              = (Rejected serialization_failure, 3)"
    by (simp add: demo_client_def patch_busy_def)
  have nf: "\<not> is_fatal serialization_failure"
    by (simp add: is_fatal_def serialization_failure_def FATAL_RESPONSE_CODES_def)
  have k4: "op merge_3 = Unknown ''MERGE''" by (simp add: merge_3_def)
  have t0: "table put_4 = ''todos''" by (simp add: put_4_def)
  note T0 = uploadData_dispatch_by_kind[OF n o0 p0]
  note T1 = uploadData_dispatch_by_kind[OF n o1 p1]
  note T2 = uploadData_dispatch_by_kind[OF n o2 p1, of delete_2]
  note T3 = uploadData_dispatch_by_kind[OF n o2 p1, of patch_busy]
  note T4 = uploadData_dispatch_by_kind[OF n o2 p1, of merge_3]
  note K0 = T0[THEN conjunct1, rule_format, OF conjI[OF k0 f0]]
  note K1 = T1[THEN conjunct1, rule_format, OF conjI[OF k1 f1]]
  note K2 = T2[THEN conjunct1, rule_format, OF conjI[OF k2 f2]]
  note K3 = T3[THEN conjunct1, rule_format, OF conjI[OF k3 f3]]
  have 0: "uploadData ?C (demo_database (Some [put_4])) fresh
     = (None,
        fresh\<lparr>world := 3,
              effects := [GetNextCrudTransaction,
                          RemoteCall ''todos'' (Upsert [(''id'', JStr ''4''), (''description'', JStr ''call home'')]),
                          Complete]\<rparr>)"
    using K0[THEN conjunct2, THEN conjunct1, rule_format, OF conjI[OF refl conjI[OF e0(1) ack]]]
    by (simp add: rq call_events_def pr t0 fresh_def)
  have m0: "map_of (put_record put_4) ''id'' = Some (JStr ''4'')"
           "map_of (put_record put_4) ''description'' = Some (JStr ''call home'')"
    using T0[THEN conjunct2, THEN conjunct1]
          T0[THEN conjunct2, THEN conjunct2, THEN conjunct1, rule_format, of "''description''"]
    by (simp_all add: pr)
  have 1: "uploadData ?C (demo_database (Some [put_1, patch_1])) fresh
     = (None,
        fresh\<lparr>world := 4,
              effects := [GetNextCrudTransaction,
                          RemoteCall ''todos'' (Upsert [(''description'', JStr ''buy milk''), (''id'', JStr ''1'')]),
                          RemoteCall ''todos'' (Update (Some [(''completed'', JNum 1)]) ''1''),
                          Complete]\<rparr>)"
    using K1[THEN conjunct2, THEN conjunct1, rule_format, OF conjI[OF refl conjI[OF e0(2) ack]]]
    by (simp add: rq call_events_def patch_1_def fresh_def)
  have 2: "uploadData ?C (demo_database (Some [put_1, delete_2, patch_1])) fresh
     = (Some (new_Error ''Could not update Supabase. Received error: violates foreign key constraint''),
        fresh\<lparr>world := 3,
              effects := [GetNextCrudTransaction,
                          RemoteCall ''todos'' (Upsert [(''description'', JStr ''buy milk''), (''id'', JStr ''1'')]),
                          RemoteCall ''todos'' (Delete ''2''),
                          LogResultError fk_violation,
                          LogCaught (new_Error ''Could not update Supabase. Received error: violates foreign key constraint'')]\<rparr>)"
    using K2[THEN conjunct2, THEN conjunct2, THEN conjunct1, rule_format, OF refl]
    by (simp add: rq call_events_def delete_2_def fk_violation_def fresh_def)
  have 3: "uploadData ?C (demo_database (Some [put_1, patch_busy, patch_1])) fresh
     = (Some serialization_failure,
        fresh\<lparr>world := 3,
              effects := [GetNextCrudTransaction,
                          RemoteCall ''todos'' (Upsert [(''description'', JStr ''buy milk''), (''id'', JStr ''1'')]),
                          RemoteCall ''busy'' (Update (Some [(''completed'', JNum 1)]) ''8''),
                          LogCaught serialization_failure]\<rparr>)"
    using K3[THEN conjunct2, THEN conjunct2, THEN conjunct2, rule_format, OF refl] nf
    by (simp add: rq call_events_def patch_busy_def fresh_def)
  have 4: "uploadData ?C (demo_database (Some [put_1, merge_3, patch_1])) fresh
     = (Some (new_Error ''Unsupported operation type: MERGE''),
        fresh\<lparr>world := 2,
              effects := [GetNextCrudTransaction,
                          RemoteCall ''todos'' (Upsert [(''description'', JStr ''buy milk''), (''id'', JStr ''1'')]),
                          LogCaught (new_Error ''Unsupported operation type: MERGE'')]\<rparr>)"
          "completions (effects (snd (uploadData ?C
              (demo_database (Some [put_1, merge_3, patch_1])) fresh))) = 0"
    using T4[THEN conjunct2, THEN conjunct2, THEN conjunct2, rule_format, OF k4]
    by (simp_all add: rq call_events_def fresh_def completions_def)
  show ?thesis using 0 m0 1 2 3 4 by blast
qed

section \<open>The claims on transactions without operations\<close>

text \<open>
  Claim C8: for a transaction with no operations \<open>uploadData\<close> issues no remote call and
  acknowledges the transaction: \<^verbatim>\<open>complete()\<close> is the first thing it calls after taking
  the transaction, in the world the queue left. When that call succeeds, \<open>uploadData\<close>
  returns without error in the world the acknowledgement left; when it fails, the
  \<^verbatim>\<open>catch\<close> block treats the failure like any other.
\<close>

theorem uploadData_empty_transaction:
  assumes nxt: "getNextCrudTransaction database (world st) = (Some tx, w)"
      and emp: "crud tx = []"
  shows
    "remote_calls (effects (snd (uploadData client database st))) = remote_calls (effects st) \<and>
     prefix (effects st @ [GetNextCrudTransaction, Complete])
            (effects (snd (uploadData client database st))) \<and>
     (\<forall>w1. complete tx w = (None, w1) \<longrightarrow>
        uploadData client database st
          = (None, st\<lparr>world := w1, effects := effects st @ [GetNextCrudTransaction, Complete]\<rparr>)) \<and>
     (\<forall>ex w1. complete tx w = (Some ex, w1) \<and> \<not> is_fatal ex \<longrightarrow>
        uploadData client database st
          = (Some ex,
             st\<lparr>world := w1,
                effects := effects st @ [GetNextCrudTransaction, Complete, LogCaught ex]\<rparr>)) \<and>
     (\<forall>ex w1. complete tx w = (Some ex, w1) \<and> is_fatal ex \<longrightarrow>
        uploadData client database st
          = (fst (complete tx w1),
             st\<lparr>world := snd (complete tx w1),
                effects := effects st @ [GetNextCrudTransaction, Complete, LogCaught ex,
                                         LogDiscard None ex, Complete]\<rparr>))"
proof -
  let ?st0 = "emit GetNextCrudTransaction (st\<lparr>world := w\<rparr>)"
  let ?res = "uploadData client database st"
  have loop: "crud_loop client (crud tx) None ?st0 = (None, None, ?st0)"
    by (simp add: emp)
  obtain r w1 where c: "complete tx w = (r, w1)" by (cases "complete tx w")
  have c': "complete tx (world ?st0) = (r, w1)" using c by (simp add: emit_def)
  note up = uploadData_looped[OF nxt loop c']
  have calls: "remote_calls (effects (snd ?res)) = remote_calls (effects st)"
    using uploadData_remote_calls[OF nxt loop] by (simp add: emit_def remote_calls_append)
  have first: "prefix (effects st @ [GetNextCrudTransaction, Complete]) (effects (snd ?res))"
    unfolding up
    by (auto simp: emit_def call_complete_def prefix_def split: option.splits prod.splits)
  have ok: "?res = (None, st\<lparr>world := v, effects := effects st @ [GetNextCrudTransaction, Complete]\<rparr>)"
    if "complete tx w = (None, v)" for v
    unfolding up using that c by (simp add: emit_def)
  have transient: "?res = (Some ex,
             st\<lparr>world := v,
                effects := effects st @ [GetNextCrudTransaction, Complete, LogCaught ex]\<rparr>)"
    if "complete tx w = (Some ex, v)" "\<not> is_fatal ex" for ex v
    unfolding up using that c by (simp add: emit_def)
  have fatal: "?res = (fst (complete tx v),
             st\<lparr>world := snd (complete tx v),
                effects := effects st @ [GetNextCrudTransaction, Complete, LogCaught ex,
                                         LogDiscard None ex, Complete]\<rparr>)"
    if "complete tx w = (Some ex, v)" "is_fatal ex" for ex v
    unfolding up using that c
    by (simp add: emit_def call_complete_def split: prod.splits)
  show ?thesis
    by (intro conjI allI impI; (elim conjE)?;
        (rule calls first ok transient fatal; assumption))
qed

text \<open>
  An empty transaction whose acknowledgement succeeds; one whose acknowledgement fails
  without a code; and one whose acknowledgement fails once with the code 42501.
\<close>

theorem uploadData_empty_transaction_witness:
  "uploadData (demo_client signed_in) (demo_database (Some [])) fresh
     = (None, fresh\<lparr>world := 2, effects := [GetNextCrudTransaction, Complete]\<rparr>) \<and>
   remote_calls (effects (snd (uploadData (demo_client signed_in) (demo_database (Some [])) fresh)))
     = [] \<and>
   uploadData (demo_client signed_in) (stubborn_database queue_failure 2) fresh
     = (Some queue_failure,
        fresh\<lparr>world := 2,
              effects := [GetNextCrudTransaction, Complete, LogCaught queue_failure]\<rparr>) \<and>
   uploadData (demo_client signed_in) (stubborn_database permission_denied 2) fresh
     = (None,
        fresh\<lparr>world := 3,
              effects := [GetNextCrudTransaction, Complete, LogCaught permission_denied,
                          LogDiscard None permission_denied, Complete]\<rparr>)"
proof -
  let ?C = "demo_client signed_in"
  have n0: "getNextCrudTransaction (demo_database (Some [])) (world fresh)
              = (Some (demo_transaction []), 1)"
    by (simp add: demo_database_def fresh_def)
  have e0: "crud (demo_transaction [] :: nat CrudTransaction) = []"
    by (simp add: demo_transaction_def)
  have c0: "complete (demo_transaction []) (1::nat) = (None, 2)"
    by (simp add: demo_transaction_def)
  have n1: "\<And>ex. getNextCrudTransaction (stubborn_database ex 2) (world fresh)
              = (Some (stubborn_transaction ex 2), 1)"
    by (simp add: stubborn_database_def fresh_def)
  have e1: "\<And>ex. crud (stubborn_transaction ex 2) = []"
    by (simp add: stubborn_transaction_def)
  have c1: "\<And>ex. complete (stubborn_transaction ex 2) 1 = (Some ex, 2)"
           "\<And>ex. complete (stubborn_transaction ex 2) 2 = (None, 3)"
    by (simp_all add: stubborn_transaction_def)
  have f: "\<not> is_fatal queue_failure" "is_fatal permission_denied"
    by (simp_all add: is_fatal_def queue_failure_def permission_denied_def
                      FATAL_RESPONSE_CODES_def)
  note T0 = uploadData_empty_transaction[OF n0 e0, of ?C]
  note T1 = uploadData_empty_transaction[OF n1[of queue_failure] e1[of queue_failure], of ?C]
  note T2 = uploadData_empty_transaction[OF n1[of permission_denied] e1[of permission_denied],
                                         of ?C]
  have 0: "uploadData ?C (demo_database (Some [])) fresh
     = (None, fresh\<lparr>world := 2, effects := [GetNextCrudTransaction, Complete]\<rparr>)"
    using T0[THEN conjunct2, THEN conjunct2, THEN conjunct1, rule_format, OF c0]
    by (simp add: fresh_def)
  have 1: "remote_calls (effects (snd (uploadData ?C (demo_database (Some [])) fresh))) = []"
    using T0[THEN conjunct1] by (simp add: fresh_def)
  have 2: "uploadData ?C (stubborn_database queue_failure 2) fresh
     = (Some queue_failure,
        fresh\<lparr>world := 2,
              effects := [GetNextCrudTransaction, Complete, LogCaught queue_failure]\<rparr>)"
    using T1[THEN conjunct2, THEN conjunct2, THEN conjunct2, THEN conjunct1, rule_format,
             OF conjI[OF c1(1) f(1)]]
    by (simp add: fresh_def)
  have 3: "uploadData ?C (stubborn_database permission_denied 2) fresh
     = (None,
        fresh\<lparr>world := 3,
              effects := [GetNextCrudTransaction, Complete, LogCaught permission_denied,
                          LogDiscard None permission_denied, Complete]\<rparr>)"
    using T2[THEN conjunct2, THEN conjunct2, THEN conjunct2, THEN conjunct2, rule_format,
             OF conjI[OF c1(1) f(2)]]
    by (simp add: c1(2) fresh_def)
  show ?thesis using 0 1 2 3 by blast
qed

text \<open>
  Claim C9: when the queue has no pending transaction, \<open>uploadData\<close> returns at once and
  without error; asking the queue is all it did, so it issued no remote call and no
  acknowledgment.
\<close>

theorem uploadData_nothing_pending:
  assumes "getNextCrudTransaction database (world st) = (None, w)"
  shows "uploadData client database st
           = (None, st\<lparr>world := w, effects := effects st @ [GetNextCrudTransaction]\<rparr>) \<and>
         remote_calls (effects (snd (uploadData client database st))) = remote_calls (effects st) \<and>
         completions (effects (snd (uploadData client database st))) = completions (effects st)"
  using assms
  by (simp add: uploadData_def emit_def Let_def remote_calls_append completions_def)

theorem uploadData_nothing_pending_witness:
  "uploadData (demo_client signed_in) (demo_database None) fresh
     = (None, fresh\<lparr>world := 1, effects := [GetNextCrudTransaction]\<rparr>)"
proof -
  have n: "getNextCrudTransaction (demo_database None) (world fresh) = (None, 1)"
    by (simp add: demo_database_def fresh_def)
  show ?thesis
    using uploadData_nothing_pending[OF n, of "demo_client signed_in"] by (simp add: fresh_def)
qed

section \<open>Properties of the expiry\<close>

lemma expiry_date_truthy: "truthy x \<Longrightarrow> expiry_date (Some x) = Some (new_Date (times_1000 x))"
  by (simp add: expiry_date_def)

lemma expiry_date_whole:
  assumes "n \<noteq> 0" and "\<bar>n * 1000\<bar> \<le> 8640000000000000"
  shows "expiry_date (Some (Finite (of_int n))) = Some (Date (n * 1000))"
  using assms(1) new_Date_whole[OF assms] by (simp add: expiry_date_def truthy_def)

lemma expiry_date_out_of_range:
  assumes "8640000000000000 < \<bar>n * 1000\<bar>"
  shows "expiry_date (Some (Finite (of_int n))) = Some Invalid_Date"
proof -
  have "n \<noteq> 0" using assms by auto
  then show ?thesis
    using new_Date_whole_out_of_range[OF assms] by (simp add: expiry_date_def truthy_def)
qed

lemma expiry_date_infinite: "expiry_date (Some (Infinity b)) = Some Invalid_Date"
  by (simp add: expiry_date_def truthy_def times_1000_def new_Date_def)

lemma expiry_date_absent:
  "expiry_date None = None" "expiry_date (Some (Finite 0)) = None" "expiry_date (Some NaN) = None"
  by (simp_all add: expiry_date_def truthy_def)

section \<open>The claims on sessions and credentials\<close>

text \<open>
  Claim C5, as amended: \<open>fetchCredentials\<close> fails when the identity provider returns no
  session or reports an error, and with the rejection itself when the call to the
  provider is rejected. Otherwise it returns the configured sync endpoint, the
  session's access token, or the empty string when the session has none, and an expiry
  that is absent when the session's expiry is absent, zero or not a number, and is
  otherwise the date made from the expiry times 1000: for a whole number \<open>n\<close> of seconds
  the date of \<open>n * 1000\<close> milliseconds when that lies within 8.64e15 milliseconds of the
  epoch, and an invalid date when it lies beyond or the expiry is infinite.
\<close>

theorem fetchCredentials_result:
  assumes "getSession client (world st) = (reply, w)"
  shows
    "(\<forall>ex. reply = AuthRejected ex \<longrightarrow> fst (fetchCredentials client config st) = Inl ex) \<and>
     (\<forall>r. reply = AuthResolved r \<and> (session r = None \<or> error r \<noteq> None) \<longrightarrow>
        fst (fetchCredentials client config st)
          = Inl (new_Error (''Could not fetch Supabase credentials: '' @ error_to_string (error r)))) \<and>
     (\<forall>r s. reply = AuthResolved r \<and> session r = Some s \<and> error r = None \<longrightarrow>
        (\<exists>c. fst (fetchCredentials client config st) = Inr c \<and>
             endpoint c = powersyncUrl config \<and>
             (\<forall>t. access_token s = Some t \<longrightarrow> token c = t) \<and>
             (access_token s = None \<longrightarrow> token c = '''') \<and>
             (\<forall>x. expires_at s = Some x \<and> truthy x \<longrightarrow>
                expiresAt c = Some (new_Date (times_1000 x))) \<and>
             (\<forall>n. expires_at s = Some (Finite (of_int n)) \<and> n \<noteq> 0 \<and>
                  \<bar>n * 1000\<bar> \<le> 8640000000000000 \<longrightarrow>
                expiresAt c = Some (Date (n * 1000))) \<and>
             (\<forall>n. expires_at s = Some (Finite (of_int n)) \<and> 8640000000000000 < \<bar>n * 1000\<bar> \<longrightarrow>
                expiresAt c = Some Invalid_Date) \<and>
             (\<forall>b. expires_at s = Some (Infinity b) \<longrightarrow> expiresAt c = Some Invalid_Date) \<and>
             (expires_at s = None \<or> expires_at s = Some (Finite 0) \<or> expires_at s = Some NaN \<longrightarrow>
                expiresAt c = None)))"
proof (intro conjI allI impI)
  fix ex assume "reply = AuthRejected ex"
  then show "fst (fetchCredentials client config st) = Inl ex"
    using assms by (simp add: fetchCredentials_def Let_def)
next
  fix r assume "reply = AuthResolved r \<and> (session r = None \<or> error r \<noteq> None)"
  then show "fst (fetchCredentials client config st)
          = Inl (new_Error (''Could not fetch Supabase credentials: '' @ error_to_string (error r)))"
    using assms by (auto simp: fetchCredentials_def Let_def split: option.splits)
next
  fix r s assume a: "reply = AuthResolved r \<and> session r = Some s \<and> error r = None"
  let ?c = "\<lparr>endpoint = powersyncUrl config,
             token = (case access_token s of None \<Rightarrow> '''' | Some t \<Rightarrow> t),
             expiresAt = expiry_date (expires_at s)\<rparr>"
  have res: "fst (fetchCredentials client config st) = Inr ?c"
    using assms a by (simp add: fetchCredentials_def Let_def)
  have "fst (fetchCredentials client config st) = Inr ?c \<and>
        endpoint ?c = powersyncUrl config \<and>
        (\<forall>t. access_token s = Some t \<longrightarrow> token ?c = t) \<and>
        (access_token s = None \<longrightarrow> token ?c = '''') \<and>
        (\<forall>x. expires_at s = Some x \<and> truthy x \<longrightarrow>
           expiresAt ?c = Some (new_Date (times_1000 x))) \<and>
        (\<forall>n. expires_at s = Some (Finite (of_int n)) \<and> n \<noteq> 0 \<and>
             \<bar>n * 1000\<bar> \<le> 8640000000000000 \<longrightarrow>
           expiresAt ?c = Some (Date (n * 1000))) \<and>
        (\<forall>n. expires_at s = Some (Finite (of_int n)) \<and> 8640000000000000 < \<bar>n * 1000\<bar> \<longrightarrow>
           expiresAt ?c = Some Invalid_Date) \<and>
        (\<forall>b. expires_at s = Some (Infinity b) \<longrightarrow> expiresAt ?c = Some Invalid_Date) \<and>
        (expires_at s = None \<or> expires_at s = Some (Finite 0) \<or> expires_at s = Some NaN \<longrightarrow>
           expiresAt ?c = None)"
    unfolding res
    by (auto simp: expiry_date_truthy expiry_date_whole expiry_date_out_of_range
                   expiry_date_infinite expiry_date_absent
             simp del: of_int_mult)
  then show "\<exists>c. fst (fetchCredentials client config st) = Inr c \<and>
             endpoint c = powersyncUrl config \<and>
             (\<forall>t. access_token s = Some t \<longrightarrow> token c = t) \<and>
             (access_token s = None \<longrightarrow> token c = '''') \<and>
             (\<forall>x. expires_at s = Some x \<and> truthy x \<longrightarrow>
                expiresAt c = Some (new_Date (times_1000 x))) \<and>
             (\<forall>n. expires_at s = Some (Finite (of_int n)) \<and> n \<noteq> 0 \<and>
                  \<bar>n * 1000\<bar> \<le> 8640000000000000 \<longrightarrow>
                expiresAt c = Some (Date (n * 1000))) \<and>
             (\<forall>n. expires_at s = Some (Finite (of_int n)) \<and> 8640000000000000 < \<bar>n * 1000\<bar> \<longrightarrow>
                expiresAt c = Some Invalid_Date) \<and>
             (\<forall>b. expires_at s = Some (Infinity b) \<longrightarrow> expiresAt c = Some Invalid_Date) \<and>
             (expires_at s = None \<or> expires_at s = Some (Finite 0) \<or> expires_at s = Some NaN \<longrightarrow>
                expiresAt c = None)"
    by (rule exI)
qed

text \<open>
  A provider error; no session; a rejected call; a full session; and sessions without
  access token whose expiry is beyond the range of dates, not a number, infinite, and
  the double nearest to 0.009, whose product with 1000 is rounded to 9.
\<close>

theorem fetchCredentials_result_witness:
  "fst (fetchCredentials (demo_client \<lparr>session = None, error = Some invalid_login\<rparr>) demo_config fresh)
     = Inl (new_Error ''Could not fetch Supabase credentials: AuthApiError: Invalid login credentials'') \<and>
   fst (fetchCredentials (demo_client signed_out) demo_config fresh)
     = Inl (new_Error ''Could not fetch Supabase credentials: null'') \<and>
   fst (fetchCredentials unreachable_client demo_config fresh) = Inl network_failure \<and>
   fst (fetchCredentials (demo_client signed_in) demo_config fresh)
     = Inr \<lparr>endpoint = ''https://sync.example'', token = ''jwt'',
            expiresAt = Some (Date 1700000000000)\<rparr> \<and>
   fst (fetchCredentials (demo_client (expiring (Finite 8640000000001))) demo_config fresh)
     = Inr \<lparr>endpoint = ''https://sync.example'', token = '''', expiresAt = Some Invalid_Date\<rparr> \<and>
   fst (fetchCredentials (demo_client (expiring NaN)) demo_config fresh)
     = Inr \<lparr>endpoint = ''https://sync.example'', token = '''', expiresAt = None\<rparr> \<and>
   fst (fetchCredentials (demo_client (expiring (Infinity True))) demo_config fresh)
     = Inr \<lparr>endpoint = ''https://sync.example'', token = '''', expiresAt = Some Invalid_Date\<rparr> \<and>
   fst (fetchCredentials
          (demo_client (expiring (Finite (5188146770730811 / 576460752303423488))))
          demo_config fresh)
     = Inr \<lparr>endpoint = ''https://sync.example'', token = '''', expiresAt = Some (Date 9)\<rparr>"
proof -
  have g: "\<And>r. getSession (demo_client r) (world fresh) = (AuthResolved r, 1)"
    by (simp add: demo_client_def fresh_def)
  have u: "getSession unreachable_client (world fresh) = (AuthRejected network_failure, 1)"
    by (simp add: unreachable_client_def fresh_def)
  have cred: "\<And>x (c::credentials) e t d.
      x = Inr c \<Longrightarrow> endpoint c = e \<Longrightarrow> token c = t \<Longrightarrow> expiresAt c = d \<Longrightarrow>
      x = Inr \<lparr>endpoint = e, token = t, expiresAt = d\<rparr>"
    by auto
  note T = fetchCredentials_result[OF g, of _ demo_config]
  have 1: "fst (fetchCredentials (demo_client \<lparr>session = None, error = Some invalid_login\<rparr>)
                  demo_config fresh)
     = Inl (new_Error ''Could not fetch Supabase credentials: AuthApiError: Invalid login credentials'')"
    using T[of "\<lparr>session = None, error = Some invalid_login\<rparr>", THEN conjunct2, THEN conjunct1]
    by (simp add: error_to_string_def invalid_login_def)
  have 2: "fst (fetchCredentials (demo_client signed_out) demo_config fresh)
     = Inl (new_Error ''Could not fetch Supabase credentials: null'')"
    using T[of signed_out, THEN conjunct2, THEN conjunct1]
    by (simp add: error_to_string_def signed_out_def)
  have 3: "fst (fetchCredentials unreachable_client demo_config fresh) = Inl network_failure"
    using fetchCredentials_result[OF u, of demo_config, THEN conjunct1] by simp
  have 4: "fst (fetchCredentials (demo_client signed_in) demo_config fresh)
     = Inr \<lparr>endpoint = ''https://sync.example'', token = ''jwt'',
            expiresAt = Some (Date 1700000000000)\<rparr>"
  proof -
    have s: "session signed_in = Some demo_session" "error signed_in = None"
      by (simp_all add: signed_in_def)
    have w: "expires_at demo_session = Some (Finite (of_int 1700000000))"
      by (simp add: demo_session_def)
    from T[of signed_in, THEN conjunct2, THEN conjunct2, rule_format,
           OF conjI[OF refl conjI[OF s]]]
    obtain c where c: "fst (fetchCredentials (demo_client signed_in) demo_config fresh) = Inr c"
      "endpoint c = powersyncUrl demo_config"
      "\<forall>t. access_token demo_session = Some t \<longrightarrow> token c = t"
      "\<forall>n. expires_at demo_session = Some (Finite (of_int n)) \<and> n \<noteq> 0 \<and>
           \<bar>n * 1000\<bar> \<le> 8640000000000000 \<longrightarrow> expiresAt c = Some (Date (n * 1000))"
      by blast
    have "expiresAt c = Some (Date (1700000000 * 1000))"
      using c(4)[rule_format, of 1700000000] w by simp
    moreover have "token c = ''jwt''" using c(3) by (simp add: demo_session_def)
    moreover have "endpoint c = ''https://sync.example''" using c(2) by (simp add: demo_config_def)
    ultimately show ?thesis using c(1) by (intro cred) simp_all
  qed
  have x: "\<And>x. session (expiring x) = Some \<lparr>access_token = None, expires_at = Some x\<rparr>"
          "\<And>x. error (expiring x) = None"
    by (simp_all add: expiring_def)
  have E: "\<exists>c. fst (fetchCredentials (demo_client (expiring x)) demo_config fresh) = Inr c \<and>
             endpoint c = ''https://sync.example'' \<and> token c = '''' \<and>
             (truthy x \<longrightarrow> expiresAt c = Some (new_Date (times_1000 x))) \<and>
             (\<forall>n. x = Finite (of_int n) \<and> 8640000000000000 < \<bar>n * 1000\<bar> \<longrightarrow>
                expiresAt c = Some Invalid_Date) \<and>
             (\<forall>b. x = Infinity b \<longrightarrow> expiresAt c = Some Invalid_Date) \<and>
             (x = NaN \<longrightarrow> expiresAt c = None)" for x
    using T[of "expiring x", THEN conjunct2, THEN conjunct2, rule_format,
            OF conjI[OF refl conjI[OF x]]]
    by (auto simp: demo_config_def)
  have 5: "fst (fetchCredentials (demo_client (expiring (Finite 8640000000001))) demo_config fresh)
     = Inr \<lparr>endpoint = ''https://sync.example'', token = '''', expiresAt = Some Invalid_Date\<rparr>"
  proof -
    from E[of "Finite 8640000000001"] obtain c where
      c: "fst (fetchCredentials (demo_client (expiring (Finite 8640000000001))) demo_config fresh)
            = Inr c"
         "endpoint c = ''https://sync.example''" "token c = ''''"
         "\<forall>n. Finite 8640000000001 = Finite (of_int n) \<and> 8640000000000000 < \<bar>n * 1000\<bar> \<longrightarrow>
                expiresAt c = Some Invalid_Date"
      by blast
    have "expiresAt c = Some Invalid_Date"
      using c(4)[rule_format, of 8640000000001] by simp
    then show ?thesis using c(1,2,3) by (intro cred) simp_all
  qed
  have 6: "fst (fetchCredentials (demo_client (expiring NaN)) demo_config fresh)
     = Inr \<lparr>endpoint = ''https://sync.example'', token = '''', expiresAt = None\<rparr>"
    using E[of NaN] by (auto intro: cred)
  have 7: "fst (fetchCredentials (demo_client (expiring (Infinity True))) demo_config fresh)
     = Inr \<lparr>endpoint = ''https://sync.example'', token = '''', expiresAt = Some Invalid_Date\<rparr>"
    using E[of "Infinity True"] by (auto intro: cred)
  have r9: "new_Date (times_1000 (Finite (5188146770730811 / 576460752303423488))) = Date 9"
    by code_simp
  have t9: "truthy (Finite (5188146770730811 / 576460752303423488))"
    by (simp add: truthy_def)
  have 8: "fst (fetchCredentials
          (demo_client (expiring (Finite (5188146770730811 / 576460752303423488))))
          demo_config fresh)
     = Inr \<lparr>endpoint = ''https://sync.example'', token = '''', expiresAt = Some (Date 9)\<rparr>"
    using E[of "Finite (5188146770730811 / 576460752303423488)"] t9
    unfolding r9 by (auto intro: cred)
  show ?thesis using 1 2 3 4 5 6 7 8 by blast
qed

text \<open>
  The claim as first stated derives the expiry whenever the session has one. A session
  whose \<^verbatim>\<open>expires_at\<close> is \<^verbatim>\<open>0\<close> has an expiry, and the credentials returned for it have
  none.
\<close>

theorem fetchCredentials_zero_expiry_counterexample:
  "fetchCredentials
     (demo_client \<lparr>session = Some \<lparr>access_token = Some ''jwt'', expires_at = Some (Finite 0)\<rparr>,
                   error = None\<rparr>)
     demo_config fresh
   = (Inr \<lparr>endpoint = ''https://sync.example'', token = ''jwt'', expiresAt = None\<rparr>,
      fresh\<lparr>world := 1, effects := [GetSession, LogExpiry (Some (Finite 0))]\<rparr>)"
  by (simp add: fetchCredentials_def fixture_defs emit_def expiry_date_def truthy_def Let_def)

text \<open>
  Claim C6, as amended: \<open>init\<close> is idempotent. On a connector that is ready it returns
  at once and changes nothing: no session is fetched. When a first call on a connector
  that is not ready returns without an exception, the connector is ready, a second call
  changes nothing, and the two calls together have fetched the session once, stored it
  once and notified \<open>initialized\<close> once: the stored session is the one the provider
  returned, and the listeners were notified of it, if there is one, and then of
  \<open>initialized\<close>, each time without an exception.
\<close>

theorem init_idempotent:
  "(ready st \<longrightarrow> init client st = (None, st)) \<and>
   (\<forall>st1. \<not> ready st \<and> init client st = (None, st1) \<longrightarrow>
      init client st1 = (None, st1) \<and>
      ready st1 \<and>
      count_list (effects st1) GetSession = count_list (effects st) GetSession + 1 \<and>
      session_stores (effects st1) = session_stores (effects st) + 1 \<and>
      count_list (effects st1) Initialized = count_list (effects st) Initialized + 1 \<and>
      (\<exists>r w. getSession client (world st) = (AuthResolved r, w) \<and>
             currentSession st1 = session r \<and>
             (session r = None \<longrightarrow> listeners_initialized st w = (None, world st1)) \<and>
             (\<forall>s. session r = Some s \<longrightarrow>
                (\<exists>w1. listeners_sessionStarted st s w = (None, w1) \<and>
                      listeners_initialized st w1 = (None, world st1)))))"
proof (intro conjI allI impI)
  assume "ready st"
  then show "init client st = (None, st)" by (simp add: init_def)
next
  fix st1 assume a: "\<not> ready st \<and> init client st = (None, st1)"
  obtain reply w where g: "getSession client (world st) = (reply, w)"
    by (cases "getSession client (world st)")
  from a g obtain r where r: "reply = AuthResolved r"
    by (cases reply) (auto simp: init_def Let_def)
  let ?st1 = "emit GetSession (st\<lparr>world := w\<rparr>)"
  from a g r obtain st2 where
    u: "updateSession (session r) ?st1 = (None, st2)" and
    n: "notify_initialized (st2\<lparr>ready := True\<rparr>) = (None, st1)"
    by (auto simp: init_def Let_def split: prod.splits option.splits)
  have st2: "currentSession st2 = session r \<and>
             count_list (effects st2) GetSession = count_list (effects st) GetSession + 1 \<and>
             session_stores (effects st2) = session_stores (effects st) + 1 \<and>
             count_list (effects st2) Initialized = count_list (effects st) Initialized \<and>
             listeners_initialized st2 = listeners_initialized st"
    using u
    by (auto simp: updateSession_def notify_sessionStarted_def emit_def Let_def session_stores_def
             split: option.splits prod.splits)
  have w2: "(session r = None \<longrightarrow> world st2 = w) \<and>
            (\<forall>s. session r = Some s \<longrightarrow> listeners_sessionStarted st s w = (None, world st2))"
    using u
    by (auto simp: updateSession_def notify_sessionStarted_def emit_def Let_def
             split: option.splits prod.splits)
  have st1: "ready st1 \<and> currentSession st1 = currentSession st2 \<and>
             effects st1 = effects st2 @ [Initialized] \<and>
             listeners_initialized st2 (world st2) = (None, world st1)"
    using n by (auto simp: notify_initialized_def emit_def split: prod.splits)
  show "init client st1 = (None, st1)"
    using st1 by (simp add: init_def)
  show "ready st1" using st1 by simp
  show "count_list (effects st1) GetSession = count_list (effects st) GetSession + 1"
    using st1 st2 by simp
  show "session_stores (effects st1) = session_stores (effects st) + 1"
    using st1 st2 by (simp add: session_stores_def)
  show "count_list (effects st1) Initialized = count_list (effects st) Initialized + 1"
    using st1 st2 by simp
  have "getSession client (world st) = (AuthResolved r, w) \<and>
        currentSession st1 = session r \<and>
        (session r = None \<longrightarrow> listeners_initialized st w = (None, world st1)) \<and>
        (\<forall>s. session r = Some s \<longrightarrow>
           (\<exists>w1. listeners_sessionStarted st s w = (None, w1) \<and>
                 listeners_initialized st w1 = (None, world st1)))"
    using st1 st2 w2 g r by auto
  then have "\<exists>w. getSession client (world st) = (AuthResolved r, w) \<and>
             currentSession st1 = session r \<and>
             (session r = None \<longrightarrow> listeners_initialized st w = (None, world st1)) \<and>
             (\<forall>s. session r = Some s \<longrightarrow>
                (\<exists>w1. listeners_sessionStarted st s w = (None, w1) \<and>
                      listeners_initialized st w1 = (None, world st1)))"
    by (rule exI)
  then show "\<exists>r w. getSession client (world st) = (AuthResolved r, w) \<and>
             currentSession st1 = session r \<and>
             (session r = None \<longrightarrow> listeners_initialized st w = (None, world st1)) \<and>
             (\<forall>s. session r = Some s \<longrightarrow>
                (\<exists>w1. listeners_sessionStarted st s w = (None, w1) \<and>
                      listeners_initialized st w1 = (None, world st1)))"
    by (rule exI)
qed

text \<open>A first call that returns, and the second call after it.\<close>

theorem init_idempotent_witness:
  "init (demo_client signed_in) fresh
     = (None,
        fresh\<lparr>ready := True, currentSession := Some demo_session, world := 3,
              effects := [GetSession, StoreSession (Some demo_session),
                          SessionStarted demo_session, Initialized]\<rparr>) \<and>
   init (demo_client signed_in)
     (fresh\<lparr>ready := True, currentSession := Some demo_session, world := 3,
            effects := [GetSession, StoreSession (Some demo_session),
                        SessionStarted demo_session, Initialized]\<rparr>)
     = (None,
        fresh\<lparr>ready := True, currentSession := Some demo_session, world := 3,
              effects := [GetSession, StoreSession (Some demo_session),
                          SessionStarted demo_session, Initialized]\<rparr>) \<and>
   count_list [GetSession, StoreSession (Some demo_session),
               SessionStarted demo_session, Initialized] GetSession = 1 \<and>
   session_stores [GetSession, StoreSession (Some demo_session),
                   SessionStarted demo_session, Initialized] = 1 \<and>
   count_list [GetSession, StoreSession (Some demo_session),
               SessionStarted demo_session, Initialized] Initialized = 1"
proof -
  let ?C = "demo_client signed_in"
  let ?st1 = "fresh\<lparr>ready := True, currentSession := Some demo_session, world := 3,
                    effects := [GetSession, StoreSession (Some demo_session),
                                SessionStarted demo_session, Initialized]\<rparr>"
  have first: "init ?C fresh = (None, ?st1)"
    by (simp add: init_def updateSession_def notify_sessionStarted_def notify_initialized_def
                  emit_def Let_def fresh_def demo_client_def signed_in_def)
  have nr: "\<not> ready fresh" by (simp add: fresh_def)
  have e0: "effects fresh = []" by (simp add: fresh_def)
  have e1: "effects ?st1 = [GetSession, StoreSession (Some demo_session),
                            SessionStarted demo_session, Initialized]"
    by simp
  have r1: "ready ?st1" by simp
  note A = init_idempotent[of fresh ?C, THEN conjunct2, rule_format, OF conjI[OF nr first]]
  note B = init_idempotent[of ?st1 ?C, THEN conjunct1, rule_format, OF r1]
  show ?thesis
    using A B first unfolding e1 e0 by (simp add: session_stores_def)
qed

text \<open>
  The claim as first stated counts one fetch, one store and one notification for any
  two calls in a row. With a listener that throws when a session starts, the first call
  leaves with that exception before the connector is marked ready; a second call then
  fetches and stores again, and \<open>initialized\<close> is never notified.
\<close>

theorem init_throwing_listener_counterexample:
  "fst (init (demo_client signed_in) grumpy) = Some listener_failure \<and>
   \<not> ready (snd (init (demo_client signed_in) grumpy)) \<and>
   count_list (effects (snd (init (demo_client signed_in)
                               (snd (init (demo_client signed_in) grumpy))))) GetSession = 2 \<and>
   session_stores (effects (snd (init (demo_client signed_in)
                                   (snd (init (demo_client signed_in) grumpy))))) = 2 \<and>
   count_list (effects (snd (init (demo_client signed_in)
                               (snd (init (demo_client signed_in) grumpy))))) Initialized = 0"
  by (simp add: init_def updateSession_def notify_sessionStarted_def notify_initialized_def
                emit_def Let_def grumpy_def fresh_def demo_client_def signed_in_def
                session_stores_def)

text \<open>
  Claim C7: when the identity provider reports an error, \<open>login\<close> fails with that error,
  message included, and the stored session is as before; the same holds when the call
  to the provider is rejected. When the provider returns a session without error, the
  stored session becomes that session and \<open>sessionStarted\<close> is notified with it; what
  \<open>login\<close> then returns is what notifying the listeners returned.
\<close>

theorem login_outcome:
  assumes "signInWithPassword client username password (world st) = (reply, w)"
  shows
    "(\<forall>r e. reply = AuthResolved r \<and> error r = Some e \<longrightarrow>
        fst (login client username password st) = Some e \<and>
        currentSession (snd (login client username password st)) = currentSession st \<and>
        effects (snd (login client username password st))
          = effects st @ [SignInWithPassword username password]) \<and>
     (\<forall>r s. reply = AuthResolved r \<and> error r = None \<and> session r = Some s \<longrightarrow>
        fst (login client username password st) = fst (listeners_sessionStarted st s w) \<and>
        currentSession (snd (login client username password st)) = Some s \<and>
        effects (snd (login client username password st))
          = effects st @ [SignInWithPassword username password, StoreSession (Some s),
                          SessionStarted s] \<and>
        world (snd (login client username password st)) = snd (listeners_sessionStarted st s w)) \<and>
     (\<forall>ex. reply = AuthRejected ex \<longrightarrow>
        fst (login client username password st) = Some ex \<and>
        currentSession (snd (login client username password st)) = currentSession st \<and>
        effects (snd (login client username password st))
          = effects st @ [SignInWithPassword username password])"
  using assms
  by (auto simp: login_def updateSession_def notify_sessionStarted_def emit_def Let_def
           split: prod.splits)

text \<open>
  A wrong password; the right one; a rejected call; and the right password on a
  connector whose listener throws, where the session is replaced all the same.
\<close>

theorem login_outcome_witness:
  "fst (login (demo_client signed_out) ''ada@example.org'' ''wrong'' fresh) = Some invalid_login \<and>
   message invalid_login = ''Invalid login credentials'' \<and>
   currentSession (snd (login (demo_client signed_out) ''ada@example.org'' ''wrong'' fresh)) = None \<and>
   fst (login (demo_client signed_out) ''ada@example.org'' ''secret'' fresh) = None \<and>
   currentSession (snd (login (demo_client signed_out) ''ada@example.org'' ''secret'' fresh))
     = Some demo_session \<and>
   effects (snd (login (demo_client signed_out) ''ada@example.org'' ''secret'' fresh))
     = [SignInWithPassword ''ada@example.org'' ''secret'', StoreSession (Some demo_session),
        SessionStarted demo_session] \<and>
   fst (login (demo_client signed_out) ''ada@example.org'' '''' fresh) = Some network_failure \<and>
   currentSession (snd (login (demo_client signed_out) ''ada@example.org'' '''' fresh)) = None \<and>
   fst (login (demo_client signed_out) ''ada@example.org'' ''secret'' grumpy)
     = Some listener_failure \<and>
   currentSession (snd (login (demo_client signed_out) ''ada@example.org'' ''secret'' grumpy))
     = Some demo_session \<and>
   effects (snd (login (demo_client signed_out) ''ada@example.org'' ''secret'' grumpy))
     = [SignInWithPassword ''ada@example.org'' ''secret'', StoreSession (Some demo_session),
        SessionStarted demo_session]"
proof -
  let ?C = "demo_client signed_out"
  have bad: "\<And>st. signInWithPassword ?C ''ada@example.org'' ''wrong'' (world st)
               = (AuthResolved \<lparr>session = None, error = Some invalid_login\<rparr>, Suc (world st))"
    by (simp add: demo_client_def)
  have good: "\<And>st. signInWithPassword ?C ''ada@example.org'' ''secret'' (world st)
               = (AuthResolved \<lparr>session = Some demo_session, error = None\<rparr>, Suc (world st))"
    by (simp add: demo_client_def)
  have down: "\<And>st. signInWithPassword ?C ''ada@example.org'' '''' (world st)
               = (AuthRejected network_failure, Suc (world st))"
    by (simp add: demo_client_def)
  have 1: "fst (login ?C ''ada@example.org'' ''wrong'' fresh) = Some invalid_login \<and>
           currentSession (snd (login ?C ''ada@example.org'' ''wrong'' fresh)) = None"
    using login_outcome[OF bad, of fresh, THEN conjunct1, rule_format, OF conjI[OF refl]]
    by (simp add: fresh_def)
  have 2: "fst (login ?C ''ada@example.org'' ''secret'' fresh) = None \<and>
           currentSession (snd (login ?C ''ada@example.org'' ''secret'' fresh)) = Some demo_session \<and>
           effects (snd (login ?C ''ada@example.org'' ''secret'' fresh))
             = [SignInWithPassword ''ada@example.org'' ''secret'', StoreSession (Some demo_session),
                SessionStarted demo_session]"
    using login_outcome[OF good, of fresh, THEN conjunct2, THEN conjunct1, rule_format,
                        OF conjI[OF refl]]
    by (simp add: fresh_def)
  have 3: "fst (login ?C ''ada@example.org'' '''' fresh) = Some network_failure \<and>
           currentSession (snd (login ?C ''ada@example.org'' '''' fresh)) = None"
    using login_outcome[OF down, of fresh, THEN conjunct2, THEN conjunct2, rule_format, OF refl]
    by (simp add: fresh_def)
  have 4: "fst (login ?C ''ada@example.org'' ''secret'' grumpy) = Some listener_failure \<and>
           currentSession (snd (login ?C ''ada@example.org'' ''secret'' grumpy)) = Some demo_session \<and>
           effects (snd (login ?C ''ada@example.org'' ''secret'' grumpy))
             = [SignInWithPassword ''ada@example.org'' ''secret'', StoreSession (Some demo_session),
                SessionStarted demo_session]"
    using login_outcome[OF good, of grumpy, THEN conjunct2, THEN conjunct1, rule_format,
                        OF conjI[OF refl]]
    by (simp add: grumpy_def fresh_def)
  have 5: "message invalid_login = ''Invalid login credentials''"
    by (simp add: invalid_login_def)
  show ?thesis using 1 2 3 4 5 by blast
qed

text \<open>
  Claim C10: \<open>fetchCredentials\<close> leaves the connector's own state alone. Whether it
  returns credentials or fails, \<open>ready\<close> and \<open>currentSession\<close> are as before, and it
  neither notifies \<open>initialized\<close> or \<open>sessionStarted\<close> nor writes the session.
\<close>

theorem fetchCredentials_frame:
  "ready (snd (fetchCredentials client config st)) = ready st \<and>
   currentSession (snd (fetchCredentials client config st)) = currentSession st \<and>
   count_list (effects (snd (fetchCredentials client config st))) Initialized
     = count_list (effects st) Initialized \<and>
   session_starts (effects (snd (fetchCredentials client config st))) = session_starts (effects st) \<and>
   session_stores (effects (snd (fetchCredentials client config st))) = session_stores (effects st)"
  by (auto simp: fetchCredentials_def emit_def Let_def session_starts_def session_stores_def
           split: prod.splits option.splits auth_reply.splits)

end
